theory Spec2Isabelle
  imports Complex_Main
begin

section \<open>Values shared by all components\<close>

text \<open>
  The console is the only log of the program. Every \<open>console.log\<close>, \<open>console.warn\<close> and
  \<open>console.error\<close> call appends one line; decorative glyphs of the messages are left out.
\<close>

datatype level = ConsoleLog | ConsoleWarn | ConsoleError

type_synonym console = "(level \<times> string) list"

text \<open>
  A value thrown by JavaScript code: an \<open>Error\<close> object with its message, or any other
  value. The handlers of the program read \<open>error.message\<close> for the former and use the
  text \<open>Unknown error\<close> for the latter.
\<close>

datatype exn = JsError string | OtherThrown

fun errorMessage :: "exn \<Rightarrow> string" where
  "errorMessage (JsError m) = m"
| "errorMessage OtherThrown = ''Unknown error''"

text \<open>
  Values read from the YAML configuration file. Numbers are rationals; \<open>NaN\<close> and the
  infinities are not modelled. An object is the list of its entries in key order.
\<close>

datatype json =
    JUndefined
  | JNull
  | JBool bool
  | JNum rat
  | JStr string
  | JArr "json list"
  | JObj "(string \<times> json) list"

text \<open>Timestamps are milliseconds since the epoch, the value of \<open>Date.getTime()\<close>.\<close>

type_synonym time = int

section \<open>Database layer (class TopixDatabase)\<close>

text \<open>
  A row of table \<open>headlines\<close>. Column \<open>id\<close> is the primary key. Column \<open>pub_date\<close>
  holds the text of \<open>Date.toISOString()\<close>; for years 0000 to 9999 the order of these texts
  is the order of the instants, so the column is modelled by the instant itself. The
  columns description, link, tags, importance, metadata, read and starred are carried
  along unchanged by every operation below and are left out.
\<close>

record headline =
  h_id :: string
  h_pluginId :: string
  h_title :: string
  h_pubDate :: time
  h_createdAt :: time
  h_category :: string
  h_archived :: bool

text \<open>
  A row of table \<open>plugin_configs\<close>, reduced to its key and the two run-state columns that
  \<open>updatePluginRun\<close> writes.
\<close>

record plugin_config_row =
  pc_plugin_id :: string
  pc_last_run :: "time option"
  pc_last_error :: "string option"

datatype auth_type = OAuth2 | ApiKey | Basic | Custom

text \<open>
  \<open>AuthCredentials\<close>: the \<open>type\<close> member, the string-valued members in insertion order
  (\<open>apiKey\<close>, \<open>username\<close>, \<open>accessToken\<close>, \<open>refreshToken\<close>, \<open>tokenUrl\<close>, ...), and the
  instant of member \<open>expiresAt\<close> when present.
\<close>

record credentials =
  c_type :: auth_type
  c_members :: "(string \<times> string) list"
  c_expiresAt :: "time option"

text \<open>
  A row of table \<open>auth\<close>; column \<open>credentials\<close> holds \<open>JSON.stringify\<close> of the value,
  which \<open>getAuth\<close> parses back.
\<close>

record auth_row =
  ar_plugin_id :: string
  ar_auth_type :: auth_type
  ar_credentials :: credentials
  ar_created_at :: time
  ar_updated_at :: time

record database =
  headlines :: "headline list"
  plugin_configs :: "plugin_config_row list"
  auth :: "auth_row list"

text \<open>\<open>x || null\<close> on an optional string: the empty string is falsy.\<close>

fun orNull :: "string option \<Rightarrow> string option" where
  "orNull None = None"
| "orNull (Some s) = (if s = [] then None else Some s)"

text \<open>\<open>insertHeadline\<close>: the INSERT fails when the primary key is already present.\<close>

definition insertHeadline :: "headline \<Rightarrow> database \<Rightarrow> exn + database" where
  "insertHeadline hl d =
     (if h_id hl \<in> set (map h_id (headlines d))
      then Inl (JsError ''UNIQUE constraint failed: headlines.id'')
      else Inr (d\<lparr>headlines := headlines d @ [hl]\<rparr>))"

text \<open>
  \<open>SELECT ... ORDER BY pub_date DESC\<close>: a stable sort, newest first; rows with equal
  \<open>pub_date\<close> stay in table order.
\<close>

definition orderByPubDateDesc :: "headline list \<Rightarrow> headline list" where
  "orderByPubDateDesc rows = sort_key (\<lambda>h. - h_pubDate h) rows"

text \<open>\<open>LIMIT n\<close>: a negative limit in SQLite means no limit.\<close>

definition sqlLimit :: "int \<Rightarrow> 'a list \<Rightarrow> 'a list" where
  "sqlLimit n rows = (if n < 0 then rows else take (nat n) rows)"

text \<open>
  \<open>deleteOldHeadlinesByCount\<close> returns the number of deleted rows and the new database.
\<close>

definition deleteOldHeadlinesByCount :: "string \<Rightarrow> int \<Rightarrow> database \<Rightarrow> nat \<times> database" where
  "deleteOldHeadlinesByCount pluginId keepCount d =
     (let keepIds = map h_id (sqlLimit keepCount
                      (orderByPubDateDesc (filter (\<lambda>h. h_pluginId h = pluginId) (headlines d))))
      in if keepIds = [] then
           (length (filter (\<lambda>h. h_pluginId h = pluginId) (headlines d)),
            d\<lparr>headlines := filter (\<lambda>h. \<not> h_pluginId h = pluginId) (headlines d)\<rparr>)
         else
           (length (filter (\<lambda>h. h_pluginId h = pluginId \<and> h_id h \<notin> set keepIds) (headlines d)),
            d\<lparr>headlines :=
                filter (\<lambda>h. \<not> (h_pluginId h = pluginId \<and> h_id h \<notin> set keepIds)) (headlines d)\<rparr>))"

text \<open>
  \<open>Date.getHours\<close> and \<open>Date.setHours\<close> work on local time. \<open>zone\<close> is the offset of the
  local time zone from UTC in milliseconds, taken constant across the instants involved (no
  change of daylight saving time between them); the hour is a whole number and may lie
  outside \<open>0..23\<close>, in which case \<open>setHours\<close> carries into the day.
\<close>

definition msPerHour :: int where
  "msPerHour = 3600000"

definition msPerDay :: int where
  "msPerDay = 24 * msPerHour"

definition getHours :: "int \<Rightarrow> time \<Rightarrow> int" where
  "getHours zone t = ((t + zone) div msPerHour) mod 24"

definition setHours :: "int \<Rightarrow> int \<Rightarrow> time \<Rightarrow> time" where
  "setHours zone hour t =
     (let localTime = t + zone
      in (localTime div msPerDay) * msPerDay + hour * msPerHour + localTime mod msPerHour - zone)"

text \<open>The zone of the process; its value plays no part in what follows.\<close>

definition localZone :: int where
  "localZone = 0"

text \<open>
  \<open>deleteOldHeadlinesByDuration\<close>: \<open>now\<close> is the reading of \<open>new Date()\<close>, and \<open>hours\<close> a
  whole number of hours.
\<close>

definition deleteOldHeadlinesByDuration :: "time \<Rightarrow> string \<Rightarrow> int \<Rightarrow> database \<Rightarrow> nat \<times> database" where
  "deleteOldHeadlinesByDuration now pluginId hours d =
     (let cutoffDate = setHours localZone (getHours localZone now - hours) now
      in (length (filter (\<lambda>h. h_pluginId h = pluginId \<and> h_pubDate h < cutoffDate) (headlines d)),
          d\<lparr>headlines :=
              filter (\<lambda>h. \<not> (h_pluginId h = pluginId \<and> h_pubDate h < cutoffDate)) (headlines d)\<rparr>))"

text \<open>
  \<open>getPluginHeadlines\<close>: the rows of one plugin, newest first. \<open>if (since)\<close> and
  \<open>if (limit)\<close> test for presence; a limit of \<open>0\<close> is falsy and adds no LIMIT clause.
\<close>

definition getPluginHeadlines ::
  "string \<Rightarrow> int option \<Rightarrow> time option \<Rightarrow> database \<Rightarrow> headline list" where
  "getPluginHeadlines pluginId limit since d =
     (let rows = orderByPubDateDesc
                   (filter (\<lambda>h. h_pluginId h = pluginId \<and>
                                 (case since of None \<Rightarrow> True | Some t \<Rightarrow> t \<le> h_pubDate h))
                           (headlines d))
      in case limit of
           None \<Rightarrow> rows
         | Some n \<Rightarrow> if n = 0 then rows else sqlLimit n rows)"

text \<open>The primary key of table \<open>headlines\<close>: no two rows share an \<open>id\<close>.\<close>

definition primaryKeyHolds :: "database \<Rightarrow> bool" where
  "primaryKeyHolds d = distinct (map h_id (headlines d))"

text \<open>\<open>updatePluginRun\<close>: an UPDATE of the rows with this key; no row is created.\<close>

definition updatePluginRun :: "time \<Rightarrow> string \<Rightarrow> string option \<Rightarrow> database \<Rightarrow> database" where
  "updatePluginRun now pluginId error d =
     d\<lparr>plugin_configs :=
         map (\<lambda>r. if pc_plugin_id r = pluginId
                  then r\<lparr>pc_last_run := Some now, pc_last_error := orNull error\<rparr> else r)
             (plugin_configs d)\<rparr>"

text \<open>\<open>upsertAuth\<close>: INSERT, or on a key conflict an UPDATE that keeps \<open>created_at\<close>.\<close>

definition upsertAuth :: "time \<Rightarrow> string \<Rightarrow> auth_type \<Rightarrow> credentials \<Rightarrow> database \<Rightarrow> database" where
  "upsertAuth now pluginId authType creds d =
     (if pluginId \<in> set (map ar_plugin_id (auth d))
      then d\<lparr>auth := map (\<lambda>r. if ar_plugin_id r = pluginId
                               then r\<lparr>ar_auth_type := authType, ar_credentials := creds,
                                      ar_updated_at := now\<rparr>
                               else r) (auth d)\<rparr>
      else d\<lparr>auth := auth d @ [\<lparr>ar_plugin_id = pluginId, ar_auth_type = authType,
                                  ar_credentials = creds, ar_created_at = now,
                                  ar_updated_at = now\<rparr>]\<rparr>)"

definition getAuth :: "string \<Rightarrow> database \<Rightarrow> credentials option" where
  "getAuth pluginId d =
     (case filter (\<lambda>r. ar_plugin_id r = pluginId) (auth d) of
        [] \<Rightarrow> None
      | r # _ \<Rightarrow> Some (ar_credentials r))"

section \<open>Configuration file (config-file.ts)\<close>

record importance_config =
  ic_llmEnabled :: bool
  ic_baseWeight :: rat
  ic_threshold :: rat
  ic_rules :: "(string \<times> rat) list"

record importance_yaml =
  iy_llmEnabled :: "bool option"
  iy_baseWeight :: "rat option"
  iy_threshold :: "rat option"
  iy_rules :: "(string \<times> rat) list option"

text \<open>\<open>PluginConfigYAML\<close>, one entry of section \<open>plugins\<close> of the file.\<close>

record plugin_config_yaml =
  y_enabled :: bool
  y_schedule :: string
  y_config :: json
  y_importance :: "importance_yaml option"

text \<open>\<open>PluginConfig\<close>, the form the plugin manager works with.\<close>

record plugin_config =
  cfg_pluginId :: string
  cfg_enabled :: bool
  cfg_schedule :: string
  cfg_config :: json
  cfg_importance :: importance_config
  cfg_lastRun :: "time option"
  cfg_lastError :: "string option"

text \<open>
  \<open>TopixConfig\<close>, the document held by the configuration manager. The keys of
  \<open>tc_plugins\<close> are the keys of a JavaScript object, pairwise distinct and listed in
  insertion order.
\<close>

record topix_config =
  tc_feed :: json
  tc_importance :: json
  tc_llm :: json
  tc_plugins :: "(string \<times> plugin_config_yaml) list"

text \<open>\<open>a?.f ?? d\<close> for an optional section \<open>a\<close> with optional member \<open>f\<close>.\<close>

definition orDefault :: "'s option \<Rightarrow> ('s \<Rightarrow> 'a option) \<Rightarrow> 'a \<Rightarrow> 'a" where
  "orDefault section member d =
     (case section of None \<Rightarrow> d
      | Some sec \<Rightarrow> (case member sec of None \<Rightarrow> d | Some v \<Rightarrow> v))"

definition yamlPluginToDbPlugin :: "string \<Rightarrow> plugin_config_yaml \<Rightarrow> plugin_config" where
  "yamlPluginToDbPlugin pluginId yaml =
     \<lparr>cfg_pluginId = pluginId,
      cfg_enabled = y_enabled yaml,
      cfg_schedule = y_schedule yaml,
      cfg_config = y_config yaml,
      cfg_importance =
        \<lparr>ic_llmEnabled = orDefault (y_importance yaml) iy_llmEnabled True,
         ic_baseWeight = orDefault (y_importance yaml) iy_baseWeight 1,
         ic_threshold = orDefault (y_importance yaml) iy_threshold (1 / 2),
         ic_rules = orDefault (y_importance yaml) iy_rules []\<rparr>,
      cfg_lastRun = None,
      cfg_lastError = None\<rparr>"

section \<open>Plugin manager (class PluginManager)\<close>

datatype retention_policy = Count int | Duration int | Unlimited

text \<open>
  \<open>FetchContext\<close>. Member \<open>getHistory\<close> is a query on member \<open>db\<close>, which the context
  carries whole; a plugin is taken to read it only.
\<close>

record fetch_context =
  ctx_pluginId :: string
  ctx_config :: json
  ctx_lastRun :: "time option"
  ctx_db :: database

text \<open>
  \<open>TopixPlugin\<close>: the members the manager uses. A member that is a function of the
  plugin's own code may throw: \<open>Inl\<close>, or \<open>Some\<close> for \<open>initialize\<close> and \<open>shutdown\<close>, is the
  thrown value.
  \<open>getRetentionPolicy\<close> is not among the members that \<open>isValidPlugin\<close> checks, so calling
  it may throw as well.
\<close>

record plugin =
  p_id :: string
  p_name :: string
  p_author :: string
  p_initialize :: "plugin_config \<Rightarrow> exn option"
  p_shutdown :: "exn option"
  p_fetchHeadlines :: "fetch_context \<Rightarrow> exn + headline list"
  p_getRetentionPolicy :: "exn + retention_policy"

text \<open>
  The fields of the manager. \<open>plugins\<close> is a JavaScript \<open>Map\<close>, which iterates in
  insertion order.
\<close>

record plugin_manager =
  plugins :: "(string \<times> plugin) list"
  db :: database
  verbose :: bool
  pm_console :: console

text \<open>\<open>Map.set\<close>: an existing key keeps its position.\<close>

fun mapSet :: "'k \<Rightarrow> 'v \<Rightarrow> ('k \<times> 'v) list \<Rightarrow> ('k \<times> 'v) list" where
  "mapSet k v [] = [(k, v)]"
| "mapSet k v ((k', v') # m) = (if k' = k then (k, v) # m else (k', v') # mapSet k v m)"

definition emit :: "level \<Rightarrow> string \<Rightarrow> plugin_manager \<Rightarrow> plugin_manager" where
  "emit lv msg s = s\<lparr>pm_console := pm_console s @ [(lv, msg)]\<rparr>"

text \<open>Decimal text of a number, as a template string prints it.\<close>

fun showNat :: "nat \<Rightarrow> string" where
  "showNat n = (if n < 10 then [''0123456789'' ! n] else showNat (n div 10) @ [''0123456789'' ! (n mod 10)])"

declare showNat.simps [simp del]

definition showInt :: "int \<Rightarrow> string" where
  "showInt i = (if i < 0 then CHR ''-'' # showNat (nat (- i)) else showNat (nat i))"

definition getPluginConfigs :: "topix_config \<Rightarrow> (string \<times> plugin_config) list" where
  "getPluginConfigs fullConfig =
     map (\<lambda>(pluginId, yamlConfig). (pluginId, yamlPluginToDbPlugin pluginId yamlConfig))
         (tc_plugins fullConfig)"

definition getPluginConfig :: "topix_config \<Rightarrow> string \<Rightarrow> plugin_config option" where
  "getPluginConfig fullConfig pluginId = map_of (getPluginConfigs fullConfig) pluginId"

definition enforceRetentionPolicy ::
  "time \<Rightarrow> string \<Rightarrow> string \<Rightarrow> retention_policy \<Rightarrow> plugin_manager \<Rightarrow> plugin_manager" where
  "enforceRetentionPolicy now pluginId pluginName policy s =
     (case policy of
        Count v \<Rightarrow>
          (let (deletedByCount, d) = deleteOldHeadlinesByCount pluginId v (db s);
               s1 = s\<lparr>db := d\<rparr>
           in if deletedByCount > 0 \<and> verbose s
              then emit ConsoleLog (''Deleted '' @ showNat deletedByCount @ '' old headlines from ''
                     @ pluginName @ '' (keeping last '' @ showInt v @ '')'') s1
              else s1)
      | Duration hours \<Rightarrow>
          (let (deletedByDuration, d) = deleteOldHeadlinesByDuration now pluginId hours (db s);
               s1 = s\<lparr>db := d\<rparr>
           in if deletedByDuration > 0 \<and> verbose s
              then emit ConsoleLog (''Deleted '' @ showNat deletedByDuration @ '' old headlines from ''
                     @ pluginName @ '' (keeping last '' @ showInt hours @ ''h)'') s1
              else s1)
      | Unlimited \<Rightarrow> s)"

text \<open>
  The loop \<open>for (const headline of headlines) this.db.insertHeadline(headline)\<close>. A failing
  INSERT leaves the rows inserted before it in the table.
\<close>

fun insertHeadlines :: "headline list \<Rightarrow> database \<Rightarrow> exn option \<times> database" where
  "insertHeadlines [] d = (None, d)"
| "insertHeadlines (hl # hls) d =
     (case insertHeadline hl d of
        Inl e \<Rightarrow> (Some e, d)
      | Inr d' \<Rightarrow> insertHeadlines hls d')"

text \<open>
  \<open>fetchFromPlugin\<close> in three parts. \<open>fetchBegin\<close> is the code up to the call of
  \<open>plugin.fetchHeadlines\<close>, where the function suspends at \<open>await\<close>: it throws, or yields the
  plugin and the context of the call. \<open>fetchResume\<close> is the code that runs when the awaited
  promise has settled with \<open>outcome\<close>. \<open>fetchFromPlugin\<close> runs both with no other task
  in between.
\<close>

definition fetchBegin ::
  "topix_config \<Rightarrow> string \<Rightarrow> plugin_manager \<Rightarrow> exn + (plugin \<times> fetch_context)" where
  "fetchBegin fullConfig pluginId s =
     (case map_of (plugins s) pluginId of
        None \<Rightarrow> Inl (JsError (''Plugin '' @ pluginId @ '' not found''))
      | Some plugin \<Rightarrow>
          (case getPluginConfig fullConfig pluginId of
             None \<Rightarrow> Inl (JsError (''Plugin '' @ pluginId @ '' is not enabled''))
           | Some config \<Rightarrow>
               if \<not> cfg_enabled config
               then Inl (JsError (''Plugin '' @ pluginId @ '' is not enabled''))
               else Inr (plugin,
                         \<lparr>ctx_pluginId = pluginId, ctx_config = cfg_config config,
                          ctx_lastRun = cfg_lastRun config, ctx_db = db s\<rparr>)))"

text \<open>The \<open>catch\<close> block of \<open>fetchFromPlugin\<close>.\<close>

definition fetchFailed ::
  "time \<Rightarrow> string \<Rightarrow> plugin \<Rightarrow> exn \<Rightarrow> plugin_manager \<Rightarrow> (exn + headline list) \<times> plugin_manager" where
  "fetchFailed now pluginId plugin error s =
     (let msg = errorMessage error;
          s1 = emit ConsoleError (''Error fetching from '' @ p_name plugin @ '': '' @ msg) s;
          s2 = s1\<lparr>db := updatePluginRun now pluginId (Some msg) (db s1)\<rparr>
      in (Inl error, s2))"

definition fetchResume ::
  "time \<Rightarrow> string \<Rightarrow> plugin \<Rightarrow> exn + headline list \<Rightarrow> plugin_manager
     \<Rightarrow> (exn + headline list) \<times> plugin_manager" where
  "fetchResume now pluginId plugin outcome s =
     (case outcome of
        Inl error \<Rightarrow> fetchFailed now pluginId plugin error s
      | Inr hls \<Rightarrow>
          (case insertHeadlines hls (db s) of
             (Some error, d) \<Rightarrow> fetchFailed now pluginId plugin error (s\<lparr>db := d\<rparr>)
           | (None, d) \<Rightarrow>
               (case p_getRetentionPolicy plugin of
                  Inl error \<Rightarrow> fetchFailed now pluginId plugin error (s\<lparr>db := d\<rparr>)
                | Inr policy \<Rightarrow>
                    (let s1 = enforceRetentionPolicy now pluginId (p_name plugin) policy (s\<lparr>db := d\<rparr>);
                         s2 = s1\<lparr>db := updatePluginRun now pluginId None (db s1)\<rparr>;
                         s3 = emit ConsoleLog (''Fetched '' @ showNat (length hls)
                                @ '' headlines from '' @ p_name plugin) s2
                     in (Inr hls, s3)))))"

definition fetchFromPlugin ::
  "topix_config \<Rightarrow> time \<Rightarrow> string \<Rightarrow> plugin_manager \<Rightarrow> (exn + headline list) \<times> plugin_manager" where
  "fetchFromPlugin fullConfig now pluginId s =
     (case fetchBegin fullConfig pluginId s of
        Inl error \<Rightarrow> (Inl error, s)
      | Inr (plugin, context) \<Rightarrow>
          fetchResume now pluginId plugin (p_fetchHeadlines plugin context) s)"

subsection \<open>Fetching from all enabled plugins\<close>

definition getEnabledPlugins :: "topix_config \<Rightarrow> plugin_manager \<Rightarrow> plugin list" where
  "getEnabledPlugins fullConfig s =
     (let enabledIds = map cfg_pluginId (filter cfg_enabled (map snd (getPluginConfigs fullConfig)))
      in filter (\<lambda>plugin. p_id plugin \<in> set enabledIds) (map snd (plugins s)))"

text \<open>
  The body of the loop of \<open>fetchFromAllPlugins\<close>, run for the plugins in turn. \<open>results\<close>
  is the \<open>Map\<close> from plugin id to headlines that the function returns.
\<close>

fun fetchLoop ::
  "topix_config \<Rightarrow> time \<Rightarrow> plugin list \<Rightarrow> (string \<times> headline list) list \<Rightarrow> plugin_manager
     \<Rightarrow> (string \<times> headline list) list \<times> plugin_manager" where
  "fetchLoop fullConfig now [] results s = (results, s)"
| "fetchLoop fullConfig now (plugin # rest) results s =
     (case fetchFromPlugin fullConfig now (p_id plugin) s of
        (Inr hls, s1) \<Rightarrow> fetchLoop fullConfig now rest (mapSet (p_id plugin) hls results) s1
      | (Inl error, s1) \<Rightarrow>
          fetchLoop fullConfig now rest (mapSet (p_id plugin) [] results)
            (emit ConsoleError (''Failed to fetch from '' @ p_name plugin) s1))"

definition fetchFromAllPlugins ::
  "topix_config \<Rightarrow> time \<Rightarrow> plugin_manager \<Rightarrow> (string \<times> headline list) list \<times> plugin_manager" where
  "fetchFromAllPlugins fullConfig now s =
     (let enabledPlugins = getEnabledPlugins fullConfig s;
          s1 = emit ConsoleLog (''Fetching from '' @ showNat (length enabledPlugins)
                 @ '' enabled plugins...'') s;
          (results, s2) = fetchLoop fullConfig now enabledPlugins [] s1;
          totalHeadlines = sum_list (map (\<lambda>(pluginId, hls). length hls) results)
      in (results,
          emit ConsoleLog (''Fetched '' @ showNat totalHeadlines @ '' total headlines from ''
            @ showNat (length enabledPlugins) @ '' plugins'') s2))"

subsection \<open>Discovery and initialization\<close>

text \<open>
  What \<open>pluginModule.default\<close> of an imported file turns out to be: the outcome of each
  test of \<open>isValidPlugin\<close>, and the object seen as a plugin.
\<close>

record candidate =
  is_object :: bool
  id_is_string :: bool
  name_is_string :: bool
  description_is_string :: bool
  version_is_string :: bool
  initialize_is_function :: bool
  fetchHeadlines_is_function :: bool
  getConfigSchema_is_function :: bool
  as_plugin :: plugin

definition isValidPlugin :: "candidate \<Rightarrow> bool" where
  "isValidPlugin c =
     (is_object c \<and> id_is_string c \<and> name_is_string c \<and> description_is_string c \<and>
      version_is_string c \<and> initialize_is_function c \<and> fetchHeadlines_is_function c \<and>
      getConfigSchema_is_function c)"

text \<open>The outcome of \<open>await import(pluginPath)\<close>.\<close>

datatype import_outcome = ImportThrows exn | Exports candidate

text \<open>
  A directory: \<open>None\<close> when it does not exist, else its files in the order of
  \<open>readdirSync\<close>, each with what importing it yields.
\<close>

type_synonym directory = "(string \<times> import_outcome) list option"

definition endsWith :: "string \<Rightarrow> string \<Rightarrow> bool" where
  "endsWith s suffix =
     (length suffix \<le> length s \<and> drop (length s - length suffix) s = suffix)"

fun includesStr :: "string \<Rightarrow> string \<Rightarrow> bool" where
  "includesStr [] sub = (sub = [])"
| "includesStr (c # cs) sub = (take (length sub) (c # cs) = sub \<or> includesStr cs sub)"

definition loadBuiltInFile :: "string \<times> import_outcome \<Rightarrow> plugin_manager \<Rightarrow> plugin_manager" where
  "loadBuiltInFile entry s =
     (let file = fst entry in
      if (\<not> endsWith file ''.ts'' \<and> \<not> endsWith file ''.js'') \<or> endsWith file ''.d.ts'' \<or>
         includesStr file ''example'' \<or> includesStr file ''.test.'' \<or> includesStr file ''.spec.''
      then s
      else (case snd entry of
              ImportThrows error \<Rightarrow> emit ConsoleError (''Error loading plugin '' @ file) s
            | Exports c \<Rightarrow>
                if \<not> isValidPlugin c
                then (if verbose s then emit ConsoleWarn (''Invalid plugin in '' @ file) s else s)
                else (let plugin = as_plugin c;
                          s1 = s\<lparr>plugins := mapSet (p_id plugin) plugin (plugins s)\<rparr>
                      in if verbose s
                         then emit ConsoleLog (''Loaded built-in plugin: '' @ p_name plugin
                                @ '' ('' @ p_id plugin @ '')'') s1
                         else s1)))"

definition loadBuiltInPlugins :: "directory \<Rightarrow> plugin_manager \<Rightarrow> plugin_manager" where
  "loadBuiltInPlugins pluginsDir s =
     (case pluginsDir of
        None \<Rightarrow> if verbose s then emit ConsoleWarn ''Built-in plugins directory not found'' s else s
      | Some files \<Rightarrow> fold loadBuiltInFile files s)"

definition loadUserFile :: "string \<times> import_outcome \<Rightarrow> plugin_manager \<Rightarrow> plugin_manager" where
  "loadUserFile entry s =
     (let file = fst entry in
      if \<not> endsWith file ''.js''
      then s
      else (case snd entry of
              ImportThrows error \<Rightarrow> emit ConsoleError (''Error loading user plugin '' @ file) s
            | Exports c \<Rightarrow>
                if \<not> isValidPlugin c
                then (if verbose s then emit ConsoleWarn (''Invalid user plugin in '' @ file) s else s)
                else (let plugin = as_plugin c in
                      if map_of (plugins s) (p_id plugin) \<noteq> None
                      then (if verbose s
                            then emit ConsoleWarn (''User plugin '' @ p_id plugin
                                   @ '' conflicts with built-in plugin, skipping'') s
                            else s)
                      else (let s1 = s\<lparr>plugins := mapSet (p_id plugin) plugin (plugins s)\<rparr>
                            in if verbose s
                               then emit ConsoleLog (''Loaded user plugin: '' @ p_name plugin
                                      @ '' ('' @ p_id plugin @ '')'') s1
                               else s1))))"

definition loadUserPlugins :: "directory \<Rightarrow> plugin_manager \<Rightarrow> plugin_manager" where
  "loadUserPlugins userPluginsDir s =
     (case userPluginsDir of
        None \<Rightarrow> s
      | Some files \<Rightarrow> fold loadUserFile files s)"

definition initializeOne :: "time \<Rightarrow> plugin_config \<Rightarrow> plugin_manager \<Rightarrow> plugin_manager" where
  "initializeOne now config s =
     (case map_of (plugins s) (cfg_pluginId config) of
        None \<Rightarrow>
          if verbose s
          then emit ConsoleWarn (''Plugin '' @ cfg_pluginId config @ '' is enabled but not loaded'') s
          else s
      | Some plugin \<Rightarrow>
          (case p_initialize plugin config of
             None \<Rightarrow> if verbose s then emit ConsoleLog (''Initialized plugin: '' @ p_name plugin) s
                     else s
           | Some error \<Rightarrow>
               (let s1 = emit ConsoleError (''Error initializing '' @ p_name plugin) s
                in s1\<lparr>db := updatePluginRun now (cfg_pluginId config)
                                (Some (errorMessage error)) (db s1)\<rparr>)))"

definition initializeEnabledPlugins :: "topix_config \<Rightarrow> time \<Rightarrow> plugin_manager \<Rightarrow> plugin_manager" where
  "initializeEnabledPlugins fullConfig now s =
     fold (initializeOne now) (filter cfg_enabled (map snd (getPluginConfigs fullConfig))) s"

text \<open>
  \<open>initialize\<close>. The two directories are what the file system holds at the call;
  \<open>initializePlugins\<close> is the option of the same name.
\<close>

definition initialize ::
  "topix_config \<Rightarrow> time \<Rightarrow> directory \<Rightarrow> directory \<Rightarrow> bool \<Rightarrow> plugin_manager \<Rightarrow> plugin_manager" where
  "initialize fullConfig now pluginsDir userPluginsDir initializePlugins s =
     (let s1 = (if verbose s then emit ConsoleLog ''Initializing Plugin Manager...'' s else s);
          s2 = loadBuiltInPlugins pluginsDir s1;
          s3 = loadUserPlugins userPluginsDir s2;
          s4 = (if initializePlugins then initializeEnabledPlugins fullConfig now s3 else s3)
      in if verbose s4
         then emit ConsoleLog (''Plugin Manager initialized with '' @ showNat (length (plugins s4))
                @ '' plugins'') s4
         else s4)"

section \<open>Scheduler (class Scheduler)\<close>

text \<open>
  A \<open>ScheduledTask\<close> of node-cron: its cron expression and whether it is started. The
  library's \<open>cron.validate\<close> is a parameter \<open>validate\<close> of the functions below.
\<close>

record task =
  cronExpression :: string
  started :: bool

text \<open>
  The fields of the scheduler. \<open>pluginManager\<close> is the manager it drives; its console is
  the console of the process.
\<close>

record scheduler =
  pluginManager :: plugin_manager
  tasks :: "(string \<times> task) list"
  running :: bool

definition say :: "level \<Rightarrow> string \<Rightarrow> scheduler \<Rightarrow> scheduler" where
  "say lv msg s = s\<lparr>pluginManager := emit lv msg (pluginManager s)\<rparr>"

text \<open>\<open>Map.delete\<close>.\<close>

definition mapDelete :: "'k \<Rightarrow> ('k \<times> 'v) list \<Rightarrow> ('k \<times> 'v) list" where
  "mapDelete k m = filter (\<lambda>entry. fst entry \<noteq> k) m"

definition schedulePlugin :: "(string \<Rightarrow> bool) \<Rightarrow> string \<Rightarrow> string \<Rightarrow> scheduler \<Rightarrow> scheduler" where
  "schedulePlugin validate pluginId schedule s =
     (if \<not> validate schedule
      then say ConsoleWarn (''Invalid cron schedule for '' @ pluginId @ '': '' @ schedule) s
      else (let s1 = (if map_of (tasks s) pluginId \<noteq> None
                      then s\<lparr>tasks := mapDelete pluginId (tasks s)\<rparr> else s);
                task = \<lparr>cronExpression = schedule, started = True\<rparr>;
                s2 = s1\<lparr>tasks := mapSet pluginId task (tasks s1)\<rparr>
            in say ConsoleLog (''Scheduled '' @ pluginId @ '': '' @ schedule) s2))"

definition reschedulePlugin :: "(string \<Rightarrow> bool) \<Rightarrow> string \<Rightarrow> string \<Rightarrow> scheduler \<Rightarrow> scheduler" where
  "reschedulePlugin validate pluginId schedule s =
     (if \<not> running s then s
      else schedulePlugin validate pluginId schedule
             (say ConsoleLog (''Rescheduling '' @ pluginId @ '': '' @ schedule) s))"

definition unschedulePlugin :: "string \<Rightarrow> scheduler \<Rightarrow> scheduler" where
  "unschedulePlugin pluginId s =
     (case map_of (tasks s) pluginId of
        None \<Rightarrow> s
      | Some task \<Rightarrow>
          say ConsoleLog (''Unscheduled '' @ pluginId) (s\<lparr>tasks := mapDelete pluginId (tasks s)\<rparr>))"

definition startScheduler :: "(string \<Rightarrow> bool) \<Rightarrow> topix_config \<Rightarrow> scheduler \<Rightarrow> scheduler" where
  "startScheduler validate fullConfig s =
     (if running s then say ConsoleWarn ''Scheduler is already running'' s
      else (let s1 = say ConsoleLog ''Starting scheduler...'' s;
                enabledPlugins = filter (\<lambda>entry. y_enabled (snd entry)) (tc_plugins fullConfig);
                s2 = fold (\<lambda>entry. schedulePlugin validate (fst entry) (y_schedule (snd entry)))
                       enabledPlugins s1;
                s3 = s2\<lparr>running := True\<rparr>
            in say ConsoleLog (''Scheduler started with '' @ showNat (length (tasks s3))
                 @ '' scheduled tasks'') s3))"

definition stopScheduler :: "scheduler \<Rightarrow> scheduler" where
  "stopScheduler s =
     (if \<not> running s then s
      else (let s1 = say ConsoleLog ''Stopping scheduler...'' s;
                s2 = fold (\<lambda>entry. say ConsoleLog (''Stopped schedule for '' @ fst entry)) (tasks s1) s1;
                s3 = s2\<lparr>tasks := [], running := False\<rparr>
            in say ConsoleLog ''Scheduler stopped'' s3))"

section \<open>Tasks on the event loop\<close>

text \<open>
  A call of \<open>fetchFromPlugin\<close> that is suspended at \<open>await plugin.fetchHeadlines(context)\<close>:
  the plugin, the outcome with which the promise will settle, and whether the call was made
  by \<open>Scheduler.executePlugin\<close>, which catches and logs a failure, or by another caller.
\<close>

record pending =
  pend_pluginId :: string
  pend_plugin :: plugin
  pend_outcome :: "exn + headline list"
  pend_scheduled :: bool

text \<open>The process: the scheduler with its plugin manager, and the suspended fetches.\<close>

record process =
  sched :: scheduler
  inflight :: "pending list"

text \<open>
  What the event loop runs next: the timer of a plugin fires, some other caller starts a
  fetch, or the awaited promise of the \<open>k\<close>-th suspended fetch settles.
\<close>

datatype event = TimerFires string | ManualFetch string | Settles nat

text \<open>
  \<open>executePlugin\<close> up to the point where \<open>fetchFromPlugin\<close> suspends. The time stamp of the
  log line is left out of the message.
\<close>

definition executePluginBegin :: "topix_config \<Rightarrow> string \<Rightarrow> process \<Rightarrow> process" where
  "executePluginBegin fullConfig pluginId p =
     (case map_of (plugins (pluginManager (sched p))) pluginId of
        None \<Rightarrow> p\<lparr>sched := say ConsoleError (''Plugin '' @ pluginId @ '' not found'') (sched p)\<rparr>
      | Some plugin \<Rightarrow>
          (let s1 = say ConsoleLog (''Running scheduled fetch: '' @ p_name plugin) (sched p) in
           case fetchBegin fullConfig pluginId (pluginManager s1) of
             Inl error \<Rightarrow>
               p\<lparr>sched := say ConsoleError (''Scheduled fetch failed for '' @ p_name plugin
                              @ '': '' @ errorMessage error) s1\<rparr>
           | Inr (plugin', context) \<Rightarrow>
               p\<lparr>sched := s1,
                 inflight := inflight p @
                   [\<lparr>pend_pluginId = pluginId, pend_plugin = plugin',
                     pend_outcome = p_fetchHeadlines plugin' context, pend_scheduled = True\<rparr>]\<rparr>))"

text \<open>A direct call of \<open>fetchFromPlugin\<close>, up to the point where it suspends.\<close>

definition manualFetchBegin :: "topix_config \<Rightarrow> string \<Rightarrow> process \<Rightarrow> process" where
  "manualFetchBegin fullConfig pluginId p =
     (case fetchBegin fullConfig pluginId (pluginManager (sched p)) of
        Inl error \<Rightarrow> p
      | Inr (plugin, context) \<Rightarrow>
          p\<lparr>inflight := inflight p @
              [\<lparr>pend_pluginId = pluginId, pend_plugin = plugin,
                pend_outcome = p_fetchHeadlines plugin context, pend_scheduled = False\<rparr>]\<rparr>)"

text \<open>
  The rest of a suspended fetch: \<open>fetchResume\<close>, and for a scheduled fetch the \<open>catch\<close> of
  \<open>executePlugin\<close>.
\<close>

definition settle :: "time \<Rightarrow> nat \<Rightarrow> process \<Rightarrow> process" where
  "settle now k p =
     (if k \<ge> length (inflight p) then p
      else (let f = inflight p ! k;
                (result, pm) = fetchResume now (pend_pluginId f) (pend_plugin f) (pend_outcome f)
                                 (pluginManager (sched p));
                s1 = (sched p)\<lparr>pluginManager := pm\<rparr>;
                s2 = (case result of
                        Inl error \<Rightarrow>
                          if pend_scheduled f
                          then say ConsoleError (''Scheduled fetch failed for ''
                                 @ p_name (pend_plugin f) @ '': '' @ errorMessage error) s1
                          else s1
                      | Inr hls \<Rightarrow> s1)
            in p\<lparr>sched := s2, inflight := take k (inflight p) @ drop (Suc k) (inflight p)\<rparr>))"

text \<open>A timer fires only while its task is installed and started.\<close>

definition step :: "topix_config \<Rightarrow> time \<Rightarrow> event \<Rightarrow> process \<Rightarrow> process" where
  "step fullConfig now ev p =
     (case ev of
        TimerFires pluginId \<Rightarrow>
          (case map_of (tasks (sched p)) pluginId of
             None \<Rightarrow> p
           | Some task \<Rightarrow> if started task then executePluginBegin fullConfig pluginId p else p)
      | ManualFetch pluginId \<Rightarrow> manualFetchBegin fullConfig pluginId p
      | Settles k \<Rightarrow> settle now k p)"

text \<open>A run of the event loop: the events in order, each with the clock reading at it.\<close>

fun run :: "topix_config \<Rightarrow> (time \<times> event) list \<Rightarrow> process \<Rightarrow> process" where
  "run fullConfig [] p = p"
| "run fullConfig ((now, ev) # evs) p = run fullConfig evs (step fullConfig now ev p)"

section \<open>Authentication manager (class AuthManager)\<close>

text \<open>
  The password stored in the keychain for an account is \<open>JSON.stringify\<close> of a credential,
  or some text that \<open>JSON.parse\<close> rejects.
\<close>

datatype secret = Json credentials | Malformed string

text \<open>
  The OS keychain as the keytar library presents it for service \<open>com.topix.app\<close>: the
  passwords by account, and whether its operations currently fail (each call rejects).
\<close>

record keytar =
  kc_failing :: bool
  kc_entries :: "(string \<times> secret) list"

record auth_manager =
  am_db :: database
  keychainAvailable :: bool
  keychain :: keytar
  am_console :: console

definition logLine :: "level \<Rightarrow> string \<Rightarrow> auth_manager \<Rightarrow> auth_manager" where
  "logLine lv msg s = s\<lparr>am_console := am_console s @ [(lv, msg)]\<rparr>"

definition getAuthType :: "credentials \<Rightarrow> auth_type" where
  "getAuthType creds = c_type creds"

text \<open>\<open>storeInKeychain\<close>: \<open>Inl\<close> when \<open>keytar.setPassword\<close> rejects.\<close>

definition storeInKeychain :: "string \<Rightarrow> credentials \<Rightarrow> keytar \<Rightarrow> exn + keytar" where
  "storeInKeychain pluginId creds kc =
     (if kc_failing kc then Inl (JsError ''Keychain unavailable'')
      else Inr (kc\<lparr>kc_entries := mapSet pluginId (Json creds) (kc_entries kc)\<rparr>))"

text \<open>
  \<open>getFromKeychain\<close>: \<open>Inl\<close> when \<open>keytar.getPassword\<close> rejects or \<open>JSON.parse\<close> throws.
\<close>

definition getFromKeychain :: "string \<Rightarrow> keytar \<Rightarrow> exn + credentials option" where
  "getFromKeychain pluginId kc =
     (if kc_failing kc then Inl (JsError ''Keychain unavailable'')
      else (case map_of (kc_entries kc) pluginId of
              None \<Rightarrow> Inr None
            | Some (Json creds) \<Rightarrow> Inr (Some creds)
            | Some (Malformed text) \<Rightarrow> Inl (JsError ''Unexpected token in JSON'')))"

text \<open>The record \<open>{ type: authType }\<close> that is written to the database beside a keychain entry.\<close>

definition metadataOnly :: "auth_type \<Rightarrow> credentials" where
  "metadataOnly authType = \<lparr>c_type = authType, c_members = [], c_expiresAt = None\<rparr>"

definition databaseFallbackStore :: "time \<Rightarrow> string \<Rightarrow> credentials \<Rightarrow> auth_manager \<Rightarrow> auth_manager" where
  "databaseFallbackStore now pluginId creds s =
     logLine ConsoleLog (''Stored credentials for '' @ pluginId @ '' in database (Keychain unavailable)'')
       (s\<lparr>am_db := upsertAuth now pluginId (getAuthType creds) creds (am_db s)\<rparr>)"

definition storeCredentials :: "time \<Rightarrow> string \<Rightarrow> credentials \<Rightarrow> auth_manager \<Rightarrow> auth_manager" where
  "storeCredentials now pluginId creds s =
     (let authType = getAuthType creds in
      if keychainAvailable s
      then (case storeInKeychain pluginId creds (keychain s) of
              Inr kc \<Rightarrow>
                (let s1 = logLine ConsoleLog (''Stored credentials for '' @ pluginId @ '' in Keychain'')
                            (s\<lparr>keychain := kc\<rparr>)
                 in s1\<lparr>am_db := upsertAuth now pluginId authType (metadataOnly authType) (am_db s1)\<rparr>)
            | Inl error \<Rightarrow>
                databaseFallbackStore now pluginId creds
                  ((logLine ConsoleWarn ''Failed to store in Keychain, falling back to database'' s)
                     \<lparr>keychainAvailable := False\<rparr>))
      else databaseFallbackStore now pluginId creds s)"

definition getCredentials :: "string \<Rightarrow> auth_manager \<Rightarrow> credentials option \<times> auth_manager" where
  "getCredentials pluginId s =
     (if keychainAvailable s
      then (case getFromKeychain pluginId (keychain s) of
              Inr (Some creds) \<Rightarrow> (Some creds, s)
            | Inr None \<Rightarrow> (getAuth pluginId (am_db s), s)
            | Inl error \<Rightarrow>
                (let s1 = (logLine ConsoleWarn ''Failed to retrieve from Keychain'' s)
                            \<lparr>keychainAvailable := False\<rparr>
                 in (getAuth pluginId (am_db s1), s1)))
      else (getAuth pluginId (am_db s), s))"

text \<open>
  The token endpoint. \<open>post url body\<close> is what \<open>fetch(tokenUrl, {method: 'POST', ...})\<close>
  followed by \<open>response.json()\<close> yields: a thrown value, a response that is not \<open>ok\<close> with its
  status text, or the token data.
\<close>

record token_data =
  access_token :: string
  refresh_token :: "string option"
  expires_in :: int

datatype http_outcome = Rejects exn | NotOk string | Ok token_data

type_synonym token_endpoint = "string \<Rightarrow> (string \<times> string) list \<Rightarrow> http_outcome"

text \<open>\<open>x || ''\<close> and the truthiness of an optional string member.\<close>

definition orEmpty :: "string option \<Rightarrow> string" where
  "orEmpty x = (case x of None \<Rightarrow> [] | Some v \<Rightarrow> v)"

definition fiveMinutes :: int where
  "fiveMinutes = 5 * 60 * 1000"

text \<open>The \<open>catch\<close> block of \<open>refreshOAuth2Token\<close>.\<close>

definition refreshFailed :: "string \<Rightarrow> auth_manager \<Rightarrow> credentials option \<times> auth_manager" where
  "refreshFailed pluginId s =
     (None, logLine ConsoleError (''Failed to refresh OAuth2 token for '' @ pluginId) s)"

definition refreshOAuth2Token ::
  "token_endpoint \<Rightarrow> time \<Rightarrow> string \<Rightarrow> auth_manager \<Rightarrow> credentials option \<times> auth_manager" where
  "refreshOAuth2Token post now pluginId s =
     (case getCredentials pluginId s of
        (None, s1) \<Rightarrow> (None, s1)
      | (Some oauth2Creds, s1) \<Rightarrow>
          if c_type oauth2Creds \<noteq> OAuth2 then (None, s1)
          else if orEmpty (map_of (c_members oauth2Creds) ''refreshToken'') = []
          then (None, logLine ConsoleWarn (''No refresh token available for '' @ pluginId) s1)
          else if (case c_expiresAt oauth2Creds of
                     None \<Rightarrow> False
                   | Some expiresAt \<Rightarrow> expiresAt - now > fiveMinutes)
          then (Some oauth2Creds, s1)
          else (let tokenUrl = orEmpty (map_of (c_members oauth2Creds) ''tokenUrl'') in
                if tokenUrl = [] then refreshFailed pluginId s1
                else (case post tokenUrl
                             [(''grant_type'', ''refresh_token''),
                              (''refresh_token'', orEmpty (map_of (c_members oauth2Creds) ''refreshToken'')),
                              (''client_id'', orEmpty (map_of (c_members oauth2Creds) ''clientId'')),
                              (''client_secret'', orEmpty (map_of (c_members oauth2Creds) ''clientSecret''))] of
                        Rejects error \<Rightarrow> refreshFailed pluginId s1
                      | NotOk statusText \<Rightarrow> refreshFailed pluginId s1
                      | Ok data \<Rightarrow>
                          (let updatedCredentials =
                                 oauth2Creds\<lparr>c_members :=
                                     mapSet ''refreshToken''
                                       (if orEmpty (refresh_token data) = []
                                        then orEmpty (map_of (c_members oauth2Creds) ''refreshToken'')
                                        else orEmpty (refresh_token data))
                                       (mapSet ''accessToken'' (access_token data) (c_members oauth2Creds)),
                                   c_expiresAt := Some (now + expires_in data * 1000)\<rparr>;
                               s2 = storeCredentials now pluginId updatedCredentials s1
                           in (Some updatedCredentials,
                               logLine ConsoleLog (''Refreshed OAuth2 token for '' @ pluginId) s2)))))"

definition validateOAuth2Token ::
  "token_endpoint \<Rightarrow> time \<Rightarrow> string \<Rightarrow> auth_manager \<Rightarrow> credentials option \<times> auth_manager" where
  "validateOAuth2Token post now pluginId s =
     (case getCredentials pluginId s of
        (None, s1) \<Rightarrow> (None, s1)
      | (Some oauth2Creds, s1) \<Rightarrow>
          if c_type oauth2Creds \<noteq> OAuth2 then (None, s1)
          else if (case c_expiresAt oauth2Creds of
                     None \<Rightarrow> False
                   | Some expiresAt \<Rightarrow> expiresAt \<le> now)
          then refreshOAuth2Token post now pluginId s1
          else (Some oauth2Creds, s1))"

section \<open>Validation of the configuration file (validateConfig)\<close>

text \<open>
  Truthiness and \<open>typeof\<close> of a value. Quotation marks inside the messages of
  \<open>validateConfig\<close> are left out.
\<close>

fun truthy :: "json \<Rightarrow> bool" where
  "truthy JUndefined = False"
| "truthy JNull = False"
| "truthy (JBool b) = b"
| "truthy (JNum n) = (n \<noteq> 0)"
| "truthy (JStr s) = (s \<noteq> [])"
| "truthy (JArr xs) = True"
| "truthy (JObj entries) = True"

fun typeOf :: "json \<Rightarrow> string" where
  "typeOf JUndefined = ''undefined''"
| "typeOf JNull = ''object''"
| "typeOf (JBool b) = ''boolean''"
| "typeOf (JNum n) = ''number''"
| "typeOf (JStr s) = ''string''"
| "typeOf (JArr xs) = ''object''"
| "typeOf (JObj entries) = ''object''"

text \<open>
  \<open>v.key\<close> for the keys that \<open>validateConfig\<close> reads, on a value that is neither \<open>null\<close>
  nor \<open>undefined\<close>: none of them is a member of an array, a string, a number or a boolean.
\<close>

fun member :: "json \<Rightarrow> string \<Rightarrow> json" where
  "member (JObj entries) key = (case map_of entries key of None \<Rightarrow> JUndefined | Some v \<Rightarrow> v)"
| "member v key = JUndefined"

text \<open>\<open>Object.entries\<close> of a truthy value of type \<open>object\<close>; an array lists its indices.\<close>

fun objectEntries :: "json \<Rightarrow> (string \<times> json) list" where
  "objectEntries (JObj entries) = entries"
| "objectEntries (JArr xs) = zip (map showNat [0..<length xs]) xs"
| "objectEntries v = []"

record validation =
  valid :: bool
  errors :: "string list"

definition feedErrors :: "json \<Rightarrow> string list" where
  "feedErrors cfg =
     (let feed = member cfg ''feed'' in
      if truthy feed then
        (if typeOf feed \<noteq> ''object'' then [''feed must be an object'']
         else (if truthy (member feed ''title'') \<and> typeOf (member feed ''title'') \<noteq> ''string''
               then [''feed.title must be a string''] else [])
            @ (if truthy (member feed ''maxItems'') \<and> typeOf (member feed ''maxItems'') \<noteq> ''number''
               then [''feed.maxItems must be a number''] else []))
      else [])"

text \<open>\<open>v < 0 || v > 1\<close>, evaluated on a number only.\<close>

fun outsideUnitInterval :: "json \<Rightarrow> bool" where
  "outsideUnitInterval (JNum n) = (n < 0 \<or> n > 1)"
| "outsideUnitInterval v = False"

definition importanceErrors :: "json \<Rightarrow> string list" where
  "importanceErrors cfg =
     (let importance = member cfg ''importance'' in
      if truthy importance then
        (if typeOf importance \<noteq> ''object'' then [''importance must be an object'']
         else (let defaultThreshold = member importance ''defaultThreshold'' in
               if truthy defaultThreshold \<and>
                  (typeOf defaultThreshold \<noteq> ''number'' \<or> outsideUnitInterval defaultThreshold)
               then [''importance.defaultThreshold must be a number between 0 and 1'']
               else []))
      else [])"

definition llmErrors :: "json \<Rightarrow> string list" where
  "llmErrors cfg =
     (let llm = member cfg ''llm'' in
      if truthy llm then
        (if typeOf llm \<noteq> ''object'' then [''llm must be an object'']
         else (if truthy (member llm ''provider'') \<and>
                  member llm ''provider'' \<notin> set [JStr ''ollama'', JStr ''openrouter'', JStr ''none'']
               then [''llm.provider must be ollama, openrouter, or none'']
               else []))
      else [])"

text \<open>
  The loop over \<open>Object.entries(cfg.plugins)\<close>. An entry that is \<open>null\<close> passes the
  \<open>typeof\<close> test and the read of \<open>plugin.enabled\<close> throws a \<open>TypeError\<close>.
\<close>

fun pluginEntryErrors :: "(string \<times> json) list \<Rightarrow> exn + string list" where
  "pluginEntryErrors [] = Inr []"
| "pluginEntryErrors ((pluginId, pluginCfg) # rest) =
     (if typeOf pluginCfg \<noteq> ''object''
      then (case pluginEntryErrors rest of
              Inl error \<Rightarrow> Inl error
            | Inr es \<Rightarrow> Inr ((''plugins.'' @ pluginId @ '' must be an object'') # es))
      else if pluginCfg = JNull
      then Inl (JsError ''Cannot read properties of null (reading enabled)'')
      else (case pluginEntryErrors rest of
              Inl error \<Rightarrow> Inl error
            | Inr es \<Rightarrow>
                Inr ((if member pluginCfg ''enabled'' \<noteq> JUndefined \<and>
                         typeOf (member pluginCfg ''enabled'') \<noteq> ''boolean''
                      then [''plugins.'' @ pluginId @ ''.enabled must be a boolean''] else [])
                   @ (if truthy (member pluginCfg ''schedule'') \<and>
                         typeOf (member pluginCfg ''schedule'') \<noteq> ''string''
                      then [''plugins.'' @ pluginId @ ''.schedule must be a string (cron expression)'']
                      else [])
                   @ (if truthy (member pluginCfg ''config'') \<and>
                         typeOf (member pluginCfg ''config'') \<noteq> ''object''
                      then [''plugins.'' @ pluginId @ ''.config must be an object''] else [])
                   @ es)))"

definition pluginsErrors :: "json \<Rightarrow> exn + string list" where
  "pluginsErrors cfg =
     (let plugins = member cfg ''plugins'' in
      if truthy plugins then
        (if typeOf plugins \<noteq> ''object'' then Inr [''plugins must be an object'']
         else pluginEntryErrors (objectEntries plugins))
      else Inr [])"

text \<open>\<open>validateConfig\<close>: \<open>Inl\<close> when it throws.\<close>

definition validateConfig :: "json \<Rightarrow> exn + validation" where
  "validateConfig config =
     (if \<not> truthy config \<or> typeOf config \<noteq> ''object''
      then Inr \<lparr>valid = False, errors = [''Config must be an object'']\<rparr>
      else (case pluginsErrors config of
              Inl error \<Rightarrow> Inl error
            | Inr pluginErrors \<Rightarrow>
                (let errors = feedErrors config @ importanceErrors config @ llmErrors config
                                @ pluginErrors
                 in Inr \<lparr>valid = (errors = []), errors = errors\<rparr>)))"

section \<open>Service wiring and configuration watcher\<close>

text \<open>
  \<open>handleConfigReload\<close> of the plugin manager: every loaded plugin with a configuration is
  shut down, and initialized again when it is enabled.
\<close>

definition reloadOne :: "string \<times> plugin_config \<Rightarrow> plugin_manager \<Rightarrow> plugin_manager" where
  "reloadOne entry s =
     (case map_of (plugins s) (fst entry) of
        None \<Rightarrow> s
      | Some plugin \<Rightarrow>
          if cfg_enabled (snd entry)
          then (if p_shutdown plugin = None \<and> p_initialize plugin (snd entry) = None
                then emit ConsoleLog (''Reloaded plugin: '' @ p_name plugin) s
                else emit ConsoleError (''Error reloading '' @ p_name plugin) s)
          else (if p_shutdown plugin = None
                then emit ConsoleLog (''Disabled plugin: '' @ p_name plugin) s
                else emit ConsoleError (''Error disabling '' @ p_name plugin) s))"

definition handleConfigReload :: "topix_config \<Rightarrow> plugin_manager \<Rightarrow> plugin_manager" where
  "handleConfigReload fullConfig s =
     emit ConsoleLog ''Plugin configuration reload complete''
       (fold reloadOne (getPluginConfigs fullConfig)
          (emit ConsoleLog ''Reloading plugin configurations...'' s))"

text \<open>
  The part of the service that a configuration change touches: the document held by the
  configuration manager (feed, importance and LLM preferences and the plugin section) and
  the scheduler with its plugin manager.
\<close>

record service =
  configManager :: topix_config
  svc_scheduler :: scheduler

definition announce :: "level \<Rightarrow> string \<Rightarrow> service \<Rightarrow> service" where
  "announce lv msg svc = svc\<lparr>svc_scheduler := say lv msg (svc_scheduler svc)\<rparr>"

text \<open>The console of the service, and the service with further lines on its console.\<close>

definition consoleOf :: "service \<Rightarrow> console" where
  "consoleOf svc = pm_console (pluginManager (svc_scheduler svc))"

definition withLines :: "console \<Rightarrow> service \<Rightarrow> service" where
  "withLines lines svc =
     svc\<lparr>svc_scheduler :=
           (svc_scheduler svc)\<lparr>pluginManager :=
             (pluginManager (svc_scheduler svc))\<lparr>pm_console := consoleOf svc @ lines\<rparr>\<rparr>\<rparr>"

text \<open>
  The change handler that \<open>ServiceManager.start\<close> registers with the watcher. It reads the
  file again through \<open>ConfigManager.reload\<close>; \<open>fileConfig\<close> is the document that read yields.
\<close>

definition serviceChangeHandler ::
  "(string \<Rightarrow> bool) \<Rightarrow> topix_config \<Rightarrow> service \<Rightarrow> exn option \<times> service" where
  "serviceChangeHandler validate fileConfig svc =
     (let svc1 = announce ConsoleLog ''Config file changed, reloading...'' svc;
          svc2 = announce ConsoleLog ''Configuration reloaded from file''
                   (svc1\<lparr>configManager := fileConfig\<rparr>);
          sch = svc_scheduler svc2;
          sch1 = sch\<lparr>pluginManager := handleConfigReload fileConfig (pluginManager sch)\<rparr>;
          sch2 = fold (\<lambda>entry. if y_enabled (snd entry)
                               then reschedulePlugin validate (fst entry) (y_schedule (snd entry))
                               else unschedulePlugin (fst entry))
                   (tc_plugins (configManager svc2)) sch1
      in (None, svc2\<lparr>svc_scheduler := sch2\<rparr>))"

text \<open>The fields of \<open>ConfigWatcher\<close> that \<open>processConfigChange\<close> reads.\<close>

record config_watcher =
  watching :: bool
  changeHandler :: "(service \<Rightarrow> exn option \<times> service) option"

text \<open>
  \<open>processConfigChange\<close>, run when the debounce timer expires. \<open>newConfig\<close> is what
  \<open>loadConfig()\<close> returns for the file as it then is.
\<close>

definition processConfigChange :: "config_watcher \<Rightarrow> json \<Rightarrow> service \<Rightarrow> service" where
  "processConfigChange w newConfig svc =
     (let svc1 = announce ConsoleLog ''Config file changed, reloading...'' svc in
      case validateConfig newConfig of
        Inl error \<Rightarrow>
          announce ConsoleError ''Keeping existing configuration''
            (announce ConsoleError (''Failed to reload config: '' @ errorMessage error) svc1)
      | Inr validation \<Rightarrow>
          if \<not> valid validation
          then announce ConsoleError ''Keeping existing configuration''
                 (fold (\<lambda>error. announce ConsoleError (''- '' @ error)) (errors validation)
                    (announce ConsoleError ''Config validation failed:'' svc1))
          else (case changeHandler w of
                  None \<Rightarrow> svc1
                | Some handler \<Rightarrow>
                    (case handler svc1 of
                       (None, svc2) \<Rightarrow> announce ConsoleLog ''Config reloaded successfully'' svc2
                     | (Some error, svc2) \<Rightarrow>
                         announce ConsoleError ''Keeping existing configuration''
                           (announce ConsoleError
                              (''Failed to reload config: '' @ errorMessage error) svc2))))"

section \<open>A worked configuration\<close>

text \<open>
  Plugin \<open>alpha\<close> with schedule \<open>*/5 * * * *\<close>. Each fetch returns the two headlines
  \<open>h3\<close> and \<open>h4\<close>; the store already holds two older headlines of \<open>alpha\<close> and one of
  another plugin.
\<close>

definition exampleHeadline :: "string \<Rightarrow> string \<Rightarrow> time \<Rightarrow> headline" where
  "exampleHeadline i pluginId t =
     \<lparr>h_id = i, h_pluginId = pluginId, h_title = ''Example headline'', h_pubDate = t,
      h_createdAt = t, h_category = ''example'', h_archived = False\<rparr>"

definition alphaPlugin :: "retention_policy \<Rightarrow> plugin" where
  "alphaPlugin policy =
     \<lparr>p_id = ''alpha'', p_name = ''Alpha'', p_author = ''Topix'',
      p_initialize = (\<lambda>config. None), p_shutdown = None,
      p_fetchHeadlines = (\<lambda>context. Inr [exampleHeadline ''h3'' ''alpha'' 7000000,
                                          exampleHeadline ''h4'' ''alpha'' 7100000]),
      p_getRetentionPolicy = Inr policy\<rparr>"

definition alphaConfig :: "bool \<Rightarrow> topix_config" where
  "alphaConfig enabled =
     \<lparr>tc_feed = JObj [], tc_importance = JObj [], tc_llm = JObj [],
      tc_plugins = [(''alpha'', \<lparr>y_enabled = enabled, y_schedule = ''*/5 * * * *'',
                                y_config = JObj [], y_importance = None\<rparr>)]\<rparr>"

definition alphaDatabase :: database where
  "alphaDatabase =
     \<lparr>headlines = [exampleHeadline ''h1'' ''alpha'' 1000,
                   exampleHeadline ''h2'' ''alpha'' 5000000,
                   exampleHeadline ''b1'' ''beta'' 500],
      plugin_configs = [\<lparr>pc_plugin_id = ''alpha'', pc_last_run = None, pc_last_error = None\<rparr>],
      auth = []\<rparr>"

definition alphaManager :: "retention_policy \<Rightarrow> plugin_manager" where
  "alphaManager policy =
     \<lparr>plugins = [(''alpha'', alphaPlugin policy)], db = alphaDatabase, verbose = True,
      pm_console = []\<rparr>"

text \<open>
  A validator standing for \<open>cron.validate\<close> on the schedules of the worked configuration,
  a scheduler that runs with the timer of \<open>alpha\<close> installed, and one that was never started.
\<close>

definition exampleValidate :: "string \<Rightarrow> bool" where
  "exampleValidate schedule = (schedule \<in> set [''*/5 * * * *'', ''*/15 * * * *'', ''0 * * * *''])"

definition alphaScheduler :: scheduler where
  "alphaScheduler =
     \<lparr>pluginManager = alphaManager (Count 3),
      tasks = [(''alpha'', \<lparr>cronExpression = ''*/5 * * * *'', started = True\<rparr>)],
      running = True\<rparr>"

definition idleScheduler :: scheduler where
  "idleScheduler = \<lparr>pluginManager = alphaManager (Count 3), tasks = [], running = False\<rparr>"

text \<open>
  The running service, and a configuration file whose \<open>importance.defaultThreshold\<close> is
  out of range and which disables \<open>alpha\<close>.
\<close>

definition alphaService :: service where
  "alphaService = \<lparr>configManager = alphaConfig True, svc_scheduler = alphaScheduler\<rparr>"

definition outOfRangeFile :: json where
  "outOfRangeFile =
     JObj [(''feed'', JObj [(''title'', JStr ''My Personal Feed''), (''maxItems'', JNum 100)]),
           (''importance'', JObj [(''defaultThreshold'', JNum (3 / 2))]),
           (''llm'', JObj [(''provider'', JStr ''ollama'')]),
           (''plugins'', JObj [(''alpha'', JObj [(''enabled'', JBool False),
                                                (''schedule'', JStr ''*/5 * * * *''),
                                                (''config'', JObj [])])])]"

definition alphaWatcher :: config_watcher where
  "alphaWatcher =
     \<lparr>watching = True,
      changeHandler = Some (serviceChangeHandler exampleValidate (alphaConfig False))\<rparr>"

text \<open>
  An authentication manager with a working, empty keychain; an API-key credential; and an
  OAuth2 credential that expires at instant \<open>expiresAt\<close>.
\<close>

definition freshAuthManager :: auth_manager where
  "freshAuthManager =
     \<lparr>am_db = \<lparr>headlines = [], plugin_configs = [], auth = []\<rparr>,
      keychainAvailable = True,
      keychain = \<lparr>kc_failing = False, kc_entries = []\<rparr>,
      am_console = []\<rparr>"


definition oauthCredentials :: "time \<Rightarrow> credentials" where
  "oauthCredentials expiresAt =
     \<lparr>c_type = OAuth2,
      c_members = [(''accessToken'', ''test-access-token''),
                   (''refreshToken'', ''test-refresh-token''),
                   (''tokenUrl'', ''https://example.com/token'')],
      c_expiresAt = Some expiresAt\<rparr>"

definition oauthManager :: "time \<Rightarrow> auth_manager" where
  "oauthManager expiresAt =
     freshAuthManager\<lparr>keychain := \<lparr>kc_failing = False,
                                   kc_entries = [(''gmail'', Json (oauthCredentials expiresAt))]\<rparr>\<rparr>"

text \<open>A token endpoint that issues a new access token valid for one hour.\<close>

definition issuingEndpoint :: token_endpoint where
  "issuingEndpoint url body =
     Ok \<lparr>access_token = ''new-access-token'', refresh_token = None, expires_in = 3600\<rparr>"

text \<open>
  Plugins whose fetch settles with a given outcome, an empty manager, and two plugin
  directories that both hold a plugin with id \<open>weather\<close>.
\<close>

definition stubPlugin :: "string \<Rightarrow> string \<Rightarrow> (exn + headline list) \<Rightarrow> plugin" where
  "stubPlugin pluginId author outcome =
     \<lparr>p_id = pluginId, p_name = pluginId, p_author = author,
      p_initialize = (\<lambda>config. None), p_shutdown = None,
      p_fetchHeadlines = (\<lambda>context. outcome),
      p_getRetentionPolicy = Inr Unlimited\<rparr>"

definition validCandidate :: "plugin \<Rightarrow> candidate" where
  "validCandidate plugin =
     \<lparr>is_object = True, id_is_string = True, name_is_string = True,
      description_is_string = True, version_is_string = True, initialize_is_function = True,
      fetchHeadlines_is_function = True, getConfigSchema_is_function = True,
      as_plugin = plugin\<rparr>"

definition emptyManager :: "bool \<Rightarrow> plugin_manager" where
  "emptyManager v =
     \<lparr>plugins = [], db = \<lparr>headlines = [], plugin_configs = [], auth = []\<rparr>, verbose = v,
      pm_console = []\<rparr>"

definition builtInDirectory :: directory where
  "builtInDirectory =
     Some [(''weather-plugin.ts'', Exports (validCandidate (stubPlugin ''weather'' ''Topix'' (Inr []))))]"

definition userDirectory :: directory where
  "userDirectory =
     Some [(''weather.js'', Exports (validCandidate (stubPlugin ''weather'' ''Somebody'' (Inr []))))]"

text \<open>
  A manager with the single plugin \<open>alpha\<close> whose fetch settles with \<open>outcome\<close>, and one
  with a failing \<open>alpha\<close> followed by a working \<open>beta\<close>, both enabled.
\<close>

definition stubManager :: "(exn + headline list) \<Rightarrow> plugin_manager" where
  "stubManager outcome =
     \<lparr>plugins = [(''alpha'', stubPlugin ''alpha'' ''Topix'' outcome)], db = alphaDatabase,
      verbose = True, pm_console = []\<rparr>"

definition pairConfig :: topix_config where
  "pairConfig =
     \<lparr>tc_feed = JObj [], tc_importance = JObj [], tc_llm = JObj [],
      tc_plugins = [(''alpha'', \<lparr>y_enabled = True, y_schedule = ''*/5 * * * *'',
                                y_config = JObj [], y_importance = None\<rparr>),
                    (''beta'', \<lparr>y_enabled = True, y_schedule = ''0 * * * *'',
                               y_config = JObj [], y_importance = None\<rparr>)]\<rparr>"

definition pairManager :: plugin_manager where
  "pairManager =
     \<lparr>plugins = [(''alpha'', stubPlugin ''alpha'' ''Topix'' (Inl (JsError ''network down''))),
                 (''beta'', stubPlugin ''beta'' ''Topix''
                              (Inr [exampleHeadline ''b2'' ''beta'' 7000000]))],
      db = alphaDatabase, verbose = True, pm_console = []\<rparr>"

text \<open>The running service as a process with no fetch in flight.\<close>

definition alphaProcess :: process where
  "alphaProcess = \<lparr>sched = alphaScheduler, inflight = []\<rparr>"

section \<open>Properties of the fetch pipeline\<close>

lemma insertHeadline_primaryKey:
  "primaryKeyHolds d \<Longrightarrow> insertHeadline hl d = Inr d' \<Longrightarrow> primaryKeyHolds d'"
  by (auto simp: insertHeadline_def primaryKeyHolds_def split: if_splits)

lemma insertHeadlines_primaryKey:
  "primaryKeyHolds d \<Longrightarrow> insertHeadlines hls d = (r, d') \<Longrightarrow> primaryKeyHolds d'"
proof (induction hls arbitrary: d)
  case Nil
  then show ?case by simp
next
  case (Cons hl hls)
  then show ?case
    by (auto split: sum.splits dest: insertHeadline_primaryKey)
qed

lemma filter_mem_take:
  "distinct xs \<Longrightarrow> filter (\<lambda>x. x \<in> set (take n xs)) xs = take n xs"
proof (induction xs arbitrary: n)
  case Nil
  then show ?case by simp
next
  case (Cons x xs)
  show ?case
  proof (cases n)
    case 0
    then show ?thesis by simp
  next
    case (Suc m)
    have "filter (\<lambda>y. y \<in> set (take n (x # xs))) xs = filter (\<lambda>y. y \<in> set (take m xs)) xs"
      using Cons.prems Suc by (auto intro!: filter_cong)
    then show ?thesis using Cons Suc by simp
  qed
qed

lemma fetchFailed_not_Inr: "fetchFailed now pid p e s \<noteq> (Inr hls, s')"
  by (simp add: fetchFailed_def Let_def)

lemma headlines_updatePluginRun: "headlines (updatePluginRun now pid e d) = headlines d"
  by (simp add: updatePluginRun_def)

lemma db_emit: "db (emit lv m s) = db s"
  by (simp add: emit_def)

lemma fetchResume_success:
  assumes "fetchResume now pid plugin (Inr hls0) s = (Inr hls, s')"
  shows "\<exists>policy d1.
           hls0 = hls \<and>
           insertHeadlines hls (db s) = (None, d1) \<and>
           p_getRetentionPolicy plugin = Inr policy \<and>
           headlines (db s') =
             headlines (db (enforceRetentionPolicy now pid (p_name plugin) policy (s\<lparr>db := d1\<rparr>)))"
proof (cases "insertHeadlines hls0 (db s)")
  case (Pair r d1)
  show ?thesis
  proof (cases r)
    case (Some e)
    with Pair assms show ?thesis
      by (simp add: fetchResume_def fetchFailed_not_Inr)
  next
    case None
    show ?thesis
    proof (cases "p_getRetentionPolicy plugin")
      case (Inl e)
      with Pair None assms show ?thesis
        by (simp add: fetchResume_def fetchFailed_not_Inr)
    next
      case (Inr policy)
      with Pair None assms show ?thesis
        by (auto simp: fetchResume_def Let_def db_emit headlines_updatePluginRun)
    qed
  qed
qed

lemma fetch_success:
  assumes "fetchFromPlugin cfg now pid s = (Inr hls, s')"
  shows "\<exists>plugin policy d1.
           map_of (plugins s) pid = Some plugin \<and>
           insertHeadlines hls (db s) = (None, d1) \<and>
           p_getRetentionPolicy plugin = Inr policy \<and>
           headlines (db s') =
             headlines (db (enforceRetentionPolicy now pid (p_name plugin) policy (s\<lparr>db := d1\<rparr>)))"
proof -
  from assms obtain plugin ctx where
    b: "fetchBegin cfg pid s = Inr (plugin, ctx)" and
    r: "fetchResume now pid plugin (p_fetchHeadlines plugin ctx) s = (Inr hls, s')"
    by (auto simp: fetchFromPlugin_def split: sum.splits)
  from b have p: "map_of (plugins s) pid = Some plugin"
    by (auto simp: fetchBegin_def split: option.splits if_splits)
  from r obtain hls0 where o: "p_fetchHeadlines plugin ctx = Inr hls0"
    by (cases "p_fetchHeadlines plugin ctx") (simp_all add: fetchResume_def fetchFailed_not_Inr)
  from r o fetchResume_success [of now pid plugin hls0 s hls s'] p show ?thesis
    by auto
qed

text \<open>
  Claim C5. A fetch for a plugin that is not loaded, or whose runtime configuration is
  absent or not enabled, throws and leaves the whole manager state, and so the stored
  headlines, as it was. The message is \<open>Plugin <id> not found\<close> exactly when the plugin is
  not loaded and \<open>Plugin <id> is not enabled\<close> otherwise, and the two messages differ.
\<close>

theorem fetch_unknown_or_disabled:
  assumes "map_of (plugins s) pid = None
           \<or> \<not> (\<exists>c. getPluginConfig cfg pid = Some c \<and> cfg_enabled c)"
  shows "fetchFromPlugin cfg now pid s =
           (Inl (JsError (if map_of (plugins s) pid = None
                          then ''Plugin '' @ pid @ '' not found''
                          else ''Plugin '' @ pid @ '' is not enabled'')), s)
         \<and> ''Plugin '' @ pid @ '' not found'' \<noteq> ''Plugin '' @ pid @ '' is not enabled''"
  using assms
  by (auto simp: fetchFromPlugin_def fetchBegin_def split: option.splits)


lemma headlines_enforce_Count:
  "headlines (db (enforceRetentionPolicy now pid name (Count N) s)) =
     headlines (snd (deleteOldHeadlinesByCount pid N (db s)))"
  by (simp add: enforceRetentionPolicy_def db_emit Let_def split: prod.splits)


lemma headlines_deleteByCount:
  "headlines (snd (deleteOldHeadlinesByCount pid N d)) =
     filter (\<lambda>h. h_pluginId h = pid \<longrightarrow>
                   h_id h \<in> h_id ` set (sqlLimit N (orderByPubDateDesc
                                  (filter (\<lambda>h. h_pluginId h = pid) (headlines d)))))
            (headlines d)"
  by (auto simp: deleteOldHeadlinesByCount_def Let_def intro!: filter_cong)

lemma sqlLimit_subset: "set (sqlLimit N xs) \<subseteq> set xs"
  by (auto simp: sqlLimit_def dest: in_set_takeD)

lemma filter_mem_sqlLimit:
  "distinct xs \<Longrightarrow> filter (\<lambda>x. x \<in> set (sqlLimit N xs)) xs = sqlLimit N xs"
  by (simp add: sqlLimit_def filter_mem_take)

lemma getPluginHeadlines_all:
  "getPluginHeadlines pid None None d =
     orderByPubDateDesc (filter (\<lambda>h. h_pluginId h = pid) (headlines d))"
  by (simp add: getPluginHeadlines_def)

lemma getPluginHeadlines_deleteByCount:
  assumes "primaryKeyHolds d"
  shows "getPluginHeadlines pid None None (snd (deleteOldHeadlinesByCount pid N d)) =
           sqlLimit N (getPluginHeadlines pid None None d)"
proof -
  let ?P = "filter (\<lambda>h. h_pluginId h = pid) (headlines d)"
  let ?S = "orderByPubDateDesc ?P"
  let ?K = "sqlLimit N ?S"
  have inj: "inj_on h_id (set (headlines d))" and dist: "distinct (headlines d)"
    using assms by (simp_all add: primaryKeyHolds_def distinct_map)
  have setS: "set ?S = set ?P"
    by (simp add: orderByPubDateDesc_def)
  have distS: "distinct ?S"
    using dist by (simp add: orderByPubDateDesc_def)
  have K: "set ?K \<subseteq> set (headlines d)"
    using sqlLimit_subset [of N ?S] setS by auto
  have mem: "h_id h \<in> h_id ` set ?K \<longleftrightarrow> h \<in> set ?K" if "h \<in> set (headlines d)" for h
    using that K inj by (auto simp: inj_on_def)
  have "filter (\<lambda>h. h_pluginId h = pid) (headlines (snd (deleteOldHeadlinesByCount pid N d)))
          = filter (\<lambda>h. h \<in> set ?K) ?P"
    unfolding headlines_deleteByCount using mem
    by (auto simp: filter_filter intro!: filter_cong)
  then have "getPluginHeadlines pid None None (snd (deleteOldHeadlinesByCount pid N d))
          = filter (\<lambda>h. h \<in> set ?K) ?S"
    by (simp add: getPluginHeadlines_all orderByPubDateDesc_def filter_sort)
  also have "\<dots> = ?K"
    using distS by (rule filter_mem_sqlLimit)
  finally show ?thesis
    by (simp add: getPluginHeadlines_all)
qed

lemma getPluginHeadlines_newest_first:
  "sorted (map (\<lambda>h. - h_pubDate h) (getPluginHeadlines pid None None d))"
  by (simp add: getPluginHeadlines_all orderByPubDateDesc_def)



text \<open>
  Claim C2. Let plugin \<open>pid\<close> declare retention \<open>Count N\<close> with \<open>0 \<le> N\<close>, and let a
  fetch for it succeed on a store that respects the primary key. Then the plugin has at most
  \<open>N\<close> stored headlines afterwards, and they are exactly the first \<open>N\<close> of the plugin's
  headlines as they stood after the inserts of this fetch, listed newest first by
  publication time.
\<close>

theorem count_retention_after_fetch:
  assumes "primaryKeyHolds (db s)"
      and "map_of (plugins s) pid = Some plugin"
      and "p_getRetentionPolicy plugin = Inr (Count N)"
      and "0 \<le> N"
      and "fetchFromPlugin cfg now pid s = (Inr hls, s')"
  shows "length (getPluginHeadlines pid None None (db s')) \<le> nat N
       \<and> getPluginHeadlines pid None None (db s') =
           take (nat N) (getPluginHeadlines pid None None (snd (insertHeadlines hls (db s))))
       \<and> sorted (map (\<lambda>h. - h_pubDate h)
                   (getPluginHeadlines pid None None (snd (insertHeadlines hls (db s)))))"
proof -
  from fetch_success [OF assms(5)] assms(2,3) obtain d1 where
    ins: "insertHeadlines hls (db s) = (None, d1)" and
    hs: "headlines (db s') =
           headlines (db (enforceRetentionPolicy now pid (p_name plugin) (Count N) (s\<lparr>db := d1\<rparr>)))"
    by auto
  have pk: "primaryKeyHolds d1"
    using assms(1) ins by (rule insertHeadlines_primaryKey)
  have "getPluginHeadlines pid None None (db s') =
          getPluginHeadlines pid None None (snd (deleteOldHeadlinesByCount pid N d1))"
    using hs by (simp add: getPluginHeadlines_all headlines_enforce_Count)
  also have "\<dots> = sqlLimit N (getPluginHeadlines pid None None d1)"
    using pk by (rule getPluginHeadlines_deleteByCount)
  also have "\<dots> = take (nat N) (getPluginHeadlines pid None None d1)"
    using assms(4) by (simp add: sqlLimit_def)
  finally have eq: "getPluginHeadlines pid None None (db s') =
                      take (nat N) (getPluginHeadlines pid None None d1)" .
  then have "length (getPluginHeadlines pid None None (db s')) \<le> nat N"
    by simp
  with eq ins show ?thesis
    by (simp add: getPluginHeadlines_newest_first)
qed


text \<open>The worked configuration, evaluated.\<close>

lemmas fixture_defs = alphaManager_def alphaPlugin_def alphaConfig_def alphaDatabase_def
  exampleHeadline_def

lemma alpha_fetch_result:
  "fst (fetchFromPlugin (alphaConfig True) 7200000 ''alpha'' (alphaManager policy))
    = Inr [exampleHeadline ''h3'' ''alpha'' 7000000, exampleHeadline ''h4'' ''alpha'' 7100000]"
  by (cases policy)
     (simp_all add: fixture_defs fetchFromPlugin_def fetchBegin_def fetchResume_def
       getPluginConfig_def getPluginConfigs_def yamlPluginToDbPlugin_def insertHeadline_def Let_def)

theorem count_retention_witness:
  "primaryKeyHolds (db (alphaManager (Count 3)))
   \<and> fst (fetchFromPlugin (alphaConfig True) 7200000 ''alpha'' (alphaManager (Count 3)))
       = Inr [exampleHeadline ''h3'' ''alpha'' 7000000, exampleHeadline ''h4'' ''alpha'' 7100000]
   \<and> map h_id (getPluginHeadlines ''alpha'' None None
         (db (snd (fetchFromPlugin (alphaConfig True) 7200000 ''alpha'' (alphaManager (Count 3))))))
       = [''h4'', ''h3'', ''h2'']"
proof -
  have pk: "primaryKeyHolds (db (alphaManager (Count 3)))"
    by (simp add: fixture_defs primaryKeyHolds_def)
  have pl: "map_of (plugins (alphaManager (Count 3))) ''alpha'' = Some (alphaPlugin (Count 3))"
    by (simp add: alphaManager_def)
  have po: "p_getRetentionPolicy (alphaPlugin (Count 3)) = Inr (Count 3)"
    by (simp add: alphaPlugin_def)
  have n: "(0::int) \<le> 3"
    by simp
  have f: "fetchFromPlugin (alphaConfig True) 7200000 ''alpha'' (alphaManager (Count 3))
      = (Inr [exampleHeadline ''h3'' ''alpha'' 7000000, exampleHeadline ''h4'' ''alpha'' 7100000],
         snd (fetchFromPlugin (alphaConfig True) 7200000 ''alpha'' (alphaManager (Count 3))))"
    using alpha_fetch_result [of "Count 3"] by (simp add: prod_eq_iff)
  have b: "map h_id (take (nat 3) (getPluginHeadlines ''alpha'' None None
             (snd (insertHeadlines
                [exampleHeadline ''h3'' ''alpha'' 7000000, exampleHeadline ''h4'' ''alpha'' 7100000]
                (db (alphaManager (Count 3))))))) = [''h4'', ''h3'', ''h2'']"
    by (simp add: fixture_defs insertHeadline_def getPluginHeadlines_def orderByPubDateDesc_def)
  from count_retention_after_fetch [OF pk pl po n f] pk alpha_fetch_result [of "Count 3"] b
  show ?thesis by simp
qed


theorem fetch_unknown_or_disabled_witness:
  "fetchFromPlugin (alphaConfig False) 7200000 ''alpha'' (alphaManager Unlimited)
     = (Inl (JsError ''Plugin alpha is not enabled''), alphaManager Unlimited)
   \<and> fetchFromPlugin (alphaConfig True) 7200000 ''gamma'' (alphaManager Unlimited)
     = (Inl (JsError ''Plugin gamma not found''), alphaManager Unlimited)"
proof -
  have a: "map_of (plugins (alphaManager Unlimited)) ''alpha'' = None
           \<or> \<not> (\<exists>c. getPluginConfig (alphaConfig False) ''alpha'' = Some c \<and> cfg_enabled c)"
    by (simp add: alphaConfig_def getPluginConfig_def getPluginConfigs_def yamlPluginToDbPlugin_def)
  have b: "map_of (plugins (alphaManager Unlimited)) ''gamma'' = None
           \<or> \<not> (\<exists>c. getPluginConfig (alphaConfig True) ''gamma'' = Some c \<and> cfg_enabled c)"
    by (simp add: alphaManager_def)
  from fetch_unknown_or_disabled [OF a, of 7200000] fetch_unknown_or_disabled [OF b, of 7200000]
  show ?thesis by (simp add: alphaManager_def)
qed

section \<open>Properties of the configuration watcher\<close>

lemma announce_withLines: "announce lv msg svc = withLines [(lv, msg)] svc"
  by (simp add: announce_def withLines_def say_def emit_def consoleOf_def)

lemma withLines_withLines: "withLines ys (withLines xs svc) = withLines (xs @ ys) svc"
  by (simp add: withLines_def consoleOf_def)

lemma fold_announce:
  "fold (\<lambda>e. announce lv (f e)) es svc = withLines (map (\<lambda>e. (lv, f e)) es) svc"
proof (induction es arbitrary: svc)
  case Nil
  show ?case by (simp add: withLines_def consoleOf_def)
next
  case (Cons e es)
  have "fold (\<lambda>e. announce lv (f e)) (e # es) svc
          = fold (\<lambda>e. announce lv (f e)) es (announce lv (f e) svc)"
    by simp
  also have "\<dots> = withLines (map (\<lambda>e. (lv, f e)) es) (announce lv (f e) svc)"
    by (rule Cons.IH)
  also have "\<dots> = withLines (map (\<lambda>e. (lv, f e)) (e # es)) svc"
    by (simp add: announce_withLines withLines_withLines)
  finally show ?case .
qed

text \<open>
  Claim C6. When \<open>validateConfig\<close> rejects the reloaded file, \<open>processConfigChange\<close> returns
  the service as it was but for lines added to the console: one line for every validation
  error, between a heading and the line \<open>Keeping existing configuration\<close>. The result does
  not depend on the watcher, so the registered change handler is not invoked; the document
  of the configuration manager (preferences and plugin section), the installed timers, the
  loaded plugins and the database are unchanged. The same holds when \<open>validateConfig\<close>
  throws, with the thrown message logged instead.
\<close>

theorem invalid_config_not_applied:
  "(\<forall>v. validateConfig newConfig = Inr v \<longrightarrow> \<not> valid v \<longrightarrow>
        processConfigChange w newConfig svc =
          withLines ([(ConsoleLog, ''Config file changed, reloading...''),
                      (ConsoleError, ''Config validation failed:'')]
                     @ map (\<lambda>error. (ConsoleError, ''- '' @ error)) (errors v)
                     @ [(ConsoleError, ''Keeping existing configuration'')]) svc)
   \<and> (\<forall>error. validateConfig newConfig = Inl error \<longrightarrow>
        processConfigChange w newConfig svc =
          withLines [(ConsoleLog, ''Config file changed, reloading...''),
                     (ConsoleError, ''Failed to reload config: '' @ errorMessage error),
                     (ConsoleError, ''Keeping existing configuration'')] svc)
   \<and> configManager (withLines lines svc) = configManager svc
   \<and> tasks (svc_scheduler (withLines lines svc)) = tasks (svc_scheduler svc)
   \<and> running (svc_scheduler (withLines lines svc)) = running (svc_scheduler svc)
   \<and> plugins (pluginManager (svc_scheduler (withLines lines svc)))
       = plugins (pluginManager (svc_scheduler svc))
   \<and> db (pluginManager (svc_scheduler (withLines lines svc)))
       = db (pluginManager (svc_scheduler svc))"
  by (simp add: processConfigChange_def Let_def fold_announce announce_withLines
        withLines_withLines)
     (simp add: withLines_def)

theorem invalid_config_not_applied_witness:
  "validateConfig outOfRangeFile =
      Inr \<lparr>valid = False,
           errors = [''importance.defaultThreshold must be a number between 0 and 1'']\<rparr>
   \<and> processConfigChange alphaWatcher outOfRangeFile alphaService =
       withLines [(ConsoleLog, ''Config file changed, reloading...''),
                  (ConsoleError, ''Config validation failed:''),
                  (ConsoleError, ''- importance.defaultThreshold must be a number between 0 and 1''),
                  (ConsoleError, ''Keeping existing configuration'')] alphaService
   \<and> tasks (svc_scheduler (processConfigChange alphaWatcher outOfRangeFile alphaService))
       = [(''alpha'', \<lparr>cronExpression = ''*/5 * * * *'', started = True\<rparr>)]
   \<and> configManager (processConfigChange alphaWatcher outOfRangeFile alphaService)
       = alphaConfig True"
proof -
  have v: "validateConfig outOfRangeFile =
      Inr \<lparr>valid = False,
           errors = [''importance.defaultThreshold must be a number between 0 and 1'']\<rparr>"
    by (simp add: validateConfig_def outOfRangeFile_def pluginsErrors_def feedErrors_def
          importanceErrors_def llmErrors_def Let_def)
  from invalid_config_not_applied [of outOfRangeFile alphaWatcher alphaService] v
  have p: "processConfigChange alphaWatcher outOfRangeFile alphaService =
       withLines [(ConsoleLog, ''Config file changed, reloading...''),
                  (ConsoleError, ''Config validation failed:''),
                  (ConsoleError, ''- importance.defaultThreshold must be a number between 0 and 1''),
                  (ConsoleError, ''Keeping existing configuration'')] alphaService"
    by simp
  show ?thesis
    using v p by (simp add: withLines_def alphaService_def alphaScheduler_def)
qed

section \<open>Properties of the scheduler\<close>

lemma tasks_say: "tasks (say lv msg s) = tasks s"
  by (simp add: say_def)

lemma running_say: "running (say lv msg s) = running s"
  by (simp add: say_def)

text \<open>
  Claim C7, amended. A call of \<open>reschedulePlugin\<close> with a cron expression that fails
  validation leaves every installed timer installed and started. While the scheduler is
  running the call logs the rescheduling and then a warning; while it is not running the
  call returns at once and logs nothing.
\<close>

theorem invalid_reschedule_keeps_timer:
  assumes "\<not> validate schedule"
  shows "tasks (reschedulePlugin validate pluginId schedule s) = tasks s
       \<and> running (reschedulePlugin validate pluginId schedule s) = running s
       \<and> (running s \<longrightarrow>
            reschedulePlugin validate pluginId schedule s =
              say ConsoleWarn (''Invalid cron schedule for '' @ pluginId @ '': '' @ schedule)
                (say ConsoleLog (''Rescheduling '' @ pluginId @ '': '' @ schedule) s))
       \<and> (\<not> running s \<longrightarrow> reschedulePlugin validate pluginId schedule s = s)"
  using assms by (simp add: reschedulePlugin_def schedulePlugin_def tasks_say running_say)

theorem invalid_reschedule_witness:
  "\<not> exampleValidate ''every day''
   \<and> tasks (reschedulePlugin exampleValidate ''alpha'' ''every day'' alphaScheduler)
       = [(''alpha'', \<lparr>cronExpression = ''*/5 * * * *'', started = True\<rparr>)]
   \<and> pm_console (pluginManager (reschedulePlugin exampleValidate ''alpha'' ''every day'' alphaScheduler))
       = [(ConsoleLog, ''Rescheduling alpha: every day''),
          (ConsoleWarn, ''Invalid cron schedule for alpha: every day'')]"
proof -
  have n: "\<not> exampleValidate ''every day''"
    by (simp add: exampleValidate_def)
  from invalid_reschedule_keeps_timer
         [where validate = exampleValidate and schedule = "''every day''"
            and pluginId = "''alpha''" and s = alphaScheduler] n
  show ?thesis
    by (simp add: alphaScheduler_def alphaManager_def say_def emit_def)
qed

text \<open>
  Claim C7 as stated fails: on a scheduler that is not running, a call with an invalid
  expression is dropped without any warning.
\<close>

theorem reschedule_without_warning_counterexample:
  "\<not> exampleValidate ''every day''
   \<and> pm_console (pluginManager (reschedulePlugin exampleValidate ''alpha'' ''every day'' idleScheduler))
       = []"
  by (simp add: exampleValidate_def reschedulePlugin_def idleScheduler_def alphaManager_def)

section \<open>Properties of the authentication manager\<close>






text \<open>
  Claim C3 at a credential that expires in four minutes (240000 ms after the clock reading
  1000000): \<open>validateOAuth2Token\<close> returns the stored token and leaves the manager as it
  was, whatever the token endpoint would answer, so no refresh is attempted. The expiry is
  within the margin of five minutes, and \<open>refreshOAuth2Token\<close> called on the same state does
  contact the endpoint and obtains a new token.
\<close>

theorem validate_ignores_safety_margin:
  "(\<forall>post. validateOAuth2Token post 1000000 ''gmail'' (oauthManager 1240000)
             = (Some (oauthCredentials 1240000), oauthManager 1240000))
   \<and> 1240000 - 1000000 \<le> fiveMinutes
   \<and> fst (refreshOAuth2Token issuingEndpoint 1000000 ''gmail'' (oauthManager 1240000))
       = Some ((oauthCredentials 1240000)
                 \<lparr>c_members := [(''accessToken'', ''new-access-token''),
                                (''refreshToken'', ''test-refresh-token''),
                                (''tokenUrl'', ''https://example.com/token'')],
                  c_expiresAt := Some 4600000\<rparr>)"
  by (simp add: validateOAuth2Token_def refreshOAuth2Token_def getCredentials_def
        getFromKeychain_def oauthManager_def oauthCredentials_def freshAuthManager_def
        fiveMinutes_def issuingEndpoint_def orEmpty_def Let_def)

section \<open>Properties of plugin discovery\<close>

lemma map_of_mapSet: "map_of (mapSet k v m) = (map_of m)(k \<mapsto> v)"
  by (induction m) (auto simp: fun_eq_iff)

lemma plugins_emit: "plugins (emit lv msg s) = plugins s"
  by (simp add: emit_def)

lemma verbose_emit: "verbose (emit lv msg s) = verbose s"
  by (simp add: emit_def)

lemma console_emit: "pm_console (emit lv msg s) = pm_console s @ [(lv, msg)]"
  by (simp add: emit_def)

lemma loadBuiltInFile_plugins_cong:
  "plugins s = plugins t \<Longrightarrow> plugins (loadBuiltInFile f s) = plugins (loadBuiltInFile f t)"
  by (simp add: loadBuiltInFile_def Let_def plugins_emit split: import_outcome.splits)

lemma fold_loadBuiltInFile_plugins_cong:
  "plugins s = plugins t \<Longrightarrow>
     plugins (fold loadBuiltInFile files s) = plugins (fold loadBuiltInFile files t)"
proof (induction files arbitrary: s t)
  case Nil
  then show ?case by simp
next
  case (Cons f files)
  from Cons.prems have "plugins (loadBuiltInFile f s) = plugins (loadBuiltInFile f t)"
    by (rule loadBuiltInFile_plugins_cong)
  then have "plugins (fold loadBuiltInFile files (loadBuiltInFile f s))
               = plugins (fold loadBuiltInFile files (loadBuiltInFile f t))"
    by (rule Cons.IH)
  then show ?case
    by simp
qed

lemma loadBuiltInPlugins_plugins_emit:
  "plugins (loadBuiltInPlugins dir (emit lv msg s)) = plugins (loadBuiltInPlugins dir s)"
proof (cases dir)
  case None
  then show ?thesis
    by (simp add: loadBuiltInPlugins_def plugins_emit verbose_emit)
next
  case (Some files)
  have "plugins (fold loadBuiltInFile files (emit lv msg s)) = plugins (fold loadBuiltInFile files s)"
    by (rule fold_loadBuiltInFile_plugins_cong) (simp add: plugins_emit)
  with Some show ?thesis
    by (simp add: loadBuiltInPlugins_def)
qed

lemma loadUserFile_keeps:
  "map_of (plugins s) pid = Some b \<Longrightarrow> map_of (plugins (loadUserFile f s)) pid = Some b"
  by (auto simp: loadUserFile_def Let_def plugins_emit map_of_mapSet split: import_outcome.splits)

lemma loadUserFile_verbose: "verbose (loadUserFile f s) = verbose s"
  by (simp add: loadUserFile_def Let_def verbose_emit split: import_outcome.splits)

lemma loadUserFile_console: "set (pm_console s) \<subseteq> set (pm_console (loadUserFile f s))"
  by (auto simp: loadUserFile_def Let_def console_emit split: import_outcome.splits)

lemma fold_loadUserFile_keeps:
  "map_of (plugins s) pid = Some b \<Longrightarrow> map_of (plugins (fold loadUserFile files s)) pid = Some b"
  by (induction files arbitrary: s) (simp_all add: loadUserFile_keeps)

lemma fold_loadUserFile_verbose: "verbose (fold loadUserFile files s) = verbose s"
  by (induction files arbitrary: s) (simp_all add: loadUserFile_verbose)

lemma fold_loadUserFile_console:
  "set (pm_console s) \<subseteq> set (pm_console (fold loadUserFile files s))"
proof (induction files arbitrary: s)
  case Nil
  show ?case by simp
next
  case (Cons f files)
  from loadUserFile_console [of s f] Cons.IH [of "loadUserFile f s"] show ?case
    by auto
qed

lemma loadUserPlugins_keeps:
  "map_of (plugins s) pid = Some b \<Longrightarrow> map_of (plugins (loadUserPlugins dir s)) pid = Some b"
  by (cases dir) (simp_all add: loadUserPlugins_def fold_loadUserFile_keeps)

lemma initializeOne_plugins: "plugins (initializeOne now config s) = plugins s"
  by (simp add: initializeOne_def Let_def plugins_emit split: option.splits)

lemma initializeOne_console:
  "set (pm_console s) \<subseteq> set (pm_console (initializeOne now config s))"
  by (auto simp: initializeOne_def Let_def console_emit split: option.splits)

lemma initializeEnabledPlugins_plugins: "plugins (initializeEnabledPlugins cfg now s) = plugins s"
proof -
  have "plugins (fold (initializeOne now) cs s) = plugins s" for cs
    by (induction cs arbitrary: s) (simp_all add: initializeOne_plugins)
  then show ?thesis by (simp add: initializeEnabledPlugins_def)
qed

lemma initializeEnabledPlugins_console:
  "set (pm_console s) \<subseteq> set (pm_console (initializeEnabledPlugins cfg now s))"
proof -
  have "set (pm_console s) \<subseteq> set (pm_console (fold (initializeOne now) cs s))" for cs
  proof (induction cs arbitrary: s)
    case Nil
    show ?case by simp
  next
    case (Cons c cs)
    from initializeOne_console [of s now c] Cons.IH [of "initializeOne now c s"] show ?case
      by auto
  qed
  then show ?thesis by (simp add: initializeEnabledPlugins_def)
qed

lemma initialize_plugins:
  "plugins (initialize cfg now pluginsDir userDir ip s)
     = plugins (loadUserPlugins userDir
         (loadBuiltInPlugins pluginsDir
            (if verbose s then emit ConsoleLog ''Initializing Plugin Manager...'' s else s)))"
  by (simp add: initialize_def Let_def plugins_emit initializeEnabledPlugins_plugins)

lemma initialize_console:
  "set (pm_console (loadUserPlugins userDir
         (loadBuiltInPlugins pluginsDir
            (if verbose s then emit ConsoleLog ''Initializing Plugin Manager...'' s else s))))
     \<subseteq> set (pm_console (initialize cfg now pluginsDir userDir ip s))"
  using initializeEnabledPlugins_console
  by (auto simp: initialize_def Let_def console_emit)

lemma loadBuiltInFile_verbose: "verbose (loadBuiltInFile f s) = verbose s"
  by (simp add: loadBuiltInFile_def Let_def verbose_emit split: import_outcome.splits)

lemma loadBuiltInPlugins_verbose: "verbose (loadBuiltInPlugins dir s) = verbose s"
proof -
  have "verbose (fold loadBuiltInFile files s) = verbose s" for files
    by (induction files arbitrary: s) (simp_all add: loadBuiltInFile_verbose)
  then show ?thesis
    by (cases dir) (simp_all add: loadBuiltInPlugins_def verbose_emit)
qed

lemma conflict_step:
  assumes "endsWith file ''.js''" and "isValidPlugin c"
      and "map_of (plugins t) (p_id (as_plugin c)) = Some b"
  shows "loadUserFile (file, Exports c) t =
           (if verbose t
            then emit ConsoleWarn (''User plugin '' @ p_id (as_plugin c)
                   @ '' conflicts with built-in plugin, skipping'') t
            else t)"
  using assms by (simp add: loadUserFile_def Let_def)

lemma conflict_logged:
  assumes "(file, Exports c) \<in> set files" and "endsWith file ''.js''" and "isValidPlugin c"
      and "map_of (plugins t) (p_id (as_plugin c)) = Some b" and "verbose t"
  shows "(ConsoleWarn, ''User plugin '' @ p_id (as_plugin c)
            @ '' conflicts with built-in plugin, skipping'')
           \<in> set (pm_console (fold loadUserFile files t))"
  using assms
proof (induction files arbitrary: t)
  case Nil
  then show ?case by simp
next
  case (Cons f files)
  show ?case
  proof (cases "f = (file, Exports c)")
    case True
    have "(ConsoleWarn, ''User plugin '' @ p_id (as_plugin c)
            @ '' conflicts with built-in plugin, skipping'')
           \<in> set (pm_console (loadUserFile f t))"
      using True Cons.prems by (simp add: conflict_step console_emit)
    with fold_loadUserFile_console [of "loadUserFile f t" files] show ?thesis
      by auto
  next
    case False
    with Cons.prems have "(file, Exports c) \<in> set files" by simp
    moreover have "map_of (plugins (loadUserFile f t)) (p_id (as_plugin c)) = Some b"
      using Cons.prems(4) by (rule loadUserFile_keeps)
    moreover have "verbose (loadUserFile f t)"
      using Cons.prems(5) by (simp add: loadUserFile_verbose)
    ultimately show ?thesis
      using Cons.IH [of "loadUserFile f t"] Cons.prems(2,3) by simp
  qed
qed

text \<open>
  Claim C10, amended. Let the built-in plugins map \<open>pid\<close> to \<open>builtin\<close>. Then after
  \<open>initialize\<close> the registry still maps \<open>pid\<close> to \<open>builtin\<close>, whatever the user directory
  holds. A valid user plugin with that id is skipped: its file changes nothing but the
  console, which receives the warning when the manager is verbose and nothing when it is
  not; for a verbose manager the warning is on the console after \<open>initialize\<close>.
\<close>

theorem user_plugin_never_replaces_builtin:
  assumes "map_of (plugins (loadBuiltInPlugins pluginsDir s)) pid = Some builtin"
  shows "map_of (plugins (initialize cfg now pluginsDir userDir ip s)) pid = Some builtin
       \<and> (\<forall>fname c t. endsWith fname ''.js'' \<and> isValidPlugin c \<and> p_id (as_plugin c) = pid \<and>
             map_of (plugins t) pid = Some builtin \<longrightarrow>
             loadUserFile (fname, Exports c) t =
               (if verbose t
                then emit ConsoleWarn (''User plugin '' @ pid
                       @ '' conflicts with built-in plugin, skipping'') t
                else t))
       \<and> (\<forall>fname c files. verbose s \<and> userDir = Some files \<and> (fname, Exports c) \<in> set files \<and>
             endsWith fname ''.js'' \<and> isValidPlugin c \<and> p_id (as_plugin c) = pid \<longrightarrow>
             (ConsoleWarn, ''User plugin '' @ pid @ '' conflicts with built-in plugin, skipping'')
               \<in> set (pm_console (initialize cfg now pluginsDir userDir ip s)))"
proof -
  let ?s0 = "if verbose s then emit ConsoleLog ''Initializing Plugin Manager...'' s else s"
  let ?s1 = "loadBuiltInPlugins pluginsDir ?s0"
  have b: "map_of (plugins ?s1) pid = Some builtin"
    using assms by (simp add: loadBuiltInPlugins_plugins_emit)
  have v: "verbose ?s1 = verbose s"
    by (simp add: loadBuiltInPlugins_verbose verbose_emit)
  have 1: "map_of (plugins (initialize cfg now pluginsDir userDir ip s)) pid = Some builtin"
    using b by (simp only: initialize_plugins loadUserPlugins_keeps)
  have 2: "loadUserFile (fname, Exports c) t =
               (if verbose t
                then emit ConsoleWarn (''User plugin '' @ pid
                       @ '' conflicts with built-in plugin, skipping'') t
                else t)"
    if "endsWith fname ''.js''" "isValidPlugin c" "p_id (as_plugin c) = pid"
       "map_of (plugins t) pid = Some builtin" for fname c t
    using that conflict_step [of fname c t builtin] by simp
  have 3: "(ConsoleWarn, ''User plugin '' @ pid @ '' conflicts with built-in plugin, skipping'')
               \<in> set (pm_console (initialize cfg now pluginsDir userDir ip s))"
    if "verbose s" "userDir = Some files" "(fname, Exports c) \<in> set files"
       "endsWith fname ''.js''" "isValidPlugin c" "p_id (as_plugin c) = pid" for fname c files
  proof -
    have "(ConsoleWarn, ''User plugin '' @ p_id (as_plugin c)
            @ '' conflicts with built-in plugin, skipping'')
           \<in> set (pm_console (fold loadUserFile files ?s1))"
      using that b v by (intro conflict_logged [where b = builtin]) simp_all
    then have "(ConsoleWarn, ''User plugin '' @ pid @ '' conflicts with built-in plugin, skipping'')
           \<in> set (pm_console (loadUserPlugins userDir ?s1))"
      using that by (simp add: loadUserPlugins_def)
    with initialize_console [of userDir pluginsDir s cfg now ip] show ?thesis
      by blast
  qed
  from 1 2 3 show ?thesis by blast
qed


lemma builtIn_loaded:
  "map_of (plugins (loadBuiltInPlugins builtInDirectory (emptyManager v))) ''weather''
     = Some (stubPlugin ''weather'' ''Topix'' (Inr []))"
  by (simp add: loadBuiltInPlugins_def builtInDirectory_def loadBuiltInFile_def endsWith_def
        isValidPlugin_def validCandidate_def emptyManager_def stubPlugin_def emit_def Let_def)

theorem user_plugin_never_replaces_builtin_witness:
  "map_of (plugins (loadBuiltInPlugins builtInDirectory (emptyManager True))) ''weather''
     = Some (stubPlugin ''weather'' ''Topix'' (Inr []))
   \<and> map_of (plugins (initialize (alphaConfig True) 7200000 builtInDirectory userDirectory True
                        (emptyManager True))) ''weather''
       = Some (stubPlugin ''weather'' ''Topix'' (Inr []))
   \<and> (ConsoleWarn, ''User plugin weather conflicts with built-in plugin, skipping'')
       \<in> set (pm_console (initialize (alphaConfig True) 7200000 builtInDirectory userDirectory True
                             (emptyManager True)))"
proof -
  have e: "endsWith ''weather.js'' ''.js''"
    by (simp add: endsWith_def)
  have c: "isValidPlugin (validCandidate (stubPlugin ''weather'' ''Somebody'' (Inr [])))"
    by (simp add: isValidPlugin_def validCandidate_def)
  have i: "p_id (as_plugin (validCandidate (stubPlugin ''weather'' ''Somebody'' (Inr [])))) = ''weather''"
    by (simp add: validCandidate_def stubPlugin_def)
  have v: "verbose (emptyManager True)"
    by (simp add: emptyManager_def)
  from user_plugin_never_replaces_builtin
         [OF builtIn_loaded [of True], of "alphaConfig True" 7200000 userDirectory True]
       builtIn_loaded [of True] e c i v
  show ?thesis
    by (auto simp: userDirectory_def)
qed

text \<open>
  Claim C10 as stated fails: a manager constructed with \<open>verbose: false\<close>, as the command
  line does, skips the conflicting user plugin without any warning.
\<close>

theorem silent_skip_counterexample:
  "map_of (plugins (loadBuiltInPlugins builtInDirectory (emptyManager False))) ''weather''
     = Some (stubPlugin ''weather'' ''Topix'' (Inr []))
   \<and> map_of (plugins (initialize (alphaConfig True) 7200000 builtInDirectory userDirectory False
                        (emptyManager False))) ''weather''
       = Some (stubPlugin ''weather'' ''Topix'' (Inr []))
   \<and> pm_console (initialize (alphaConfig True) 7200000 builtInDirectory userDirectory False
                    (emptyManager False)) = []"
  by (simp add: initialize_def loadBuiltInPlugins_def loadUserPlugins_def builtInDirectory_def
        userDirectory_def loadBuiltInFile_def loadUserFile_def endsWith_def isValidPlugin_def
        validCandidate_def emptyManager_def stubPlugin_def emit_def Let_def)

section \<open>Properties of fetching from all plugins\<close>

lemma map_fst_mapSet:
  "map fst (mapSet k v m) = (if k \<in> fst ` set m then map fst m else map fst m @ [k])"
  by (induction m) (force simp: image_iff)+

lemma keys_mapSet: "fst ` set (mapSet k v m) = insert k (fst ` set m)"
proof -
  have "fst ` set (mapSet k v m) = set (map fst (mapSet k v m))"
    by simp
  also have "\<dots> = insert k (fst ` set m)"
    unfolding map_fst_mapSet by auto
  finally show ?thesis .
qed

text \<open>One turn of the loop, with the outcome of the fetch named.\<close>

lemma fetchLoop_Cons:
  "fetchLoop cfg now (plugin # rest) results s =
     (let r = fetchFromPlugin cfg now (p_id plugin) s in
      fetchLoop cfg now rest
        (mapSet (p_id plugin) (case fst r of Inl e \<Rightarrow> [] | Inr hls \<Rightarrow> hls) results)
        (case fst r of
           Inl e \<Rightarrow> emit ConsoleError (''Failed to fetch from '' @ p_name plugin) (snd r)
         | Inr hls \<Rightarrow> snd r))"
  by (cases "fetchFromPlugin cfg now (p_id plugin) s")
     (simp add: Let_def split: sum.splits)

lemma fetchLoop_keys:
  "fst ` set (fst (fetchLoop cfg now ps results s)) = fst ` set results \<union> p_id ` set ps"
proof (induction ps arbitrary: results s)
  case Nil
  show ?case by simp
next
  case (Cons plugin rest)
  show ?case
    unfolding fetchLoop_Cons Let_def
    by (simp only: Cons.IH keys_mapSet) auto
qed

lemma fetchLoop_other:
  "k \<notin> p_id ` set ps \<Longrightarrow> map_of (fst (fetchLoop cfg now ps results s)) k = map_of results k"
proof (induction ps arbitrary: results s)
  case Nil
  show ?case by simp
next
  case (Cons plugin rest)
  from Cons.prems have k: "k \<notin> p_id ` set rest" and ne: "p_id plugin \<noteq> k"
    by auto
  show ?case
    unfolding fetchLoop_Cons Let_def
    using ne by (simp only: Cons.IH [OF k] map_of_mapSet) auto
qed

lemma fetchLoop_append:
  "fetchLoop cfg now (xs @ ys) results s =
     fetchLoop cfg now ys (fst (fetchLoop cfg now xs results s))
       (snd (fetchLoop cfg now xs results s))"
proof (induction xs arbitrary: results s)
  case Nil
  show ?case by simp
next
  case (Cons plugin rest)
  show ?case
    unfolding append_Cons fetchLoop_Cons Let_def
    by (rule Cons.IH)
qed

lemma fst_fetchFromAllPlugins:
  "fst (fetchFromAllPlugins cfg now s) =
     fst (fetchLoop cfg now (getEnabledPlugins cfg s) []
            (emit ConsoleLog (''Fetching from '' @ showNat (length (getEnabledPlugins cfg s))
               @ '' enabled plugins...'') s))"
  by (simp add: fetchFromAllPlugins_def Let_def split: prod.splits)

text \<open>
  Claim C8, amended. \<open>fetchFromAllPlugins\<close> runs \<open>fetchFromPlugin\<close> for every enabled plugin
  in turn, each on the state its predecessors left, whether they failed or not. The returned
  map has exactly the ids of the enabled plugins as keys, and the entry of a plugin is the
  list of headlines its fetch returned, or the empty list when its fetch failed.
\<close>

theorem fetch_all_entry_per_plugin:
  assumes "getEnabledPlugins cfg s = before @ plugin # after"
      and "p_id plugin \<notin> p_id ` set after"
  shows "map_of (fst (fetchFromAllPlugins cfg now s)) (p_id plugin) =
           Some (case fst (fetchFromPlugin cfg now (p_id plugin)
                             (snd (fetchLoop cfg now before []
                                (emit ConsoleLog (''Fetching from ''
                                   @ showNat (length (getEnabledPlugins cfg s))
                                   @ '' enabled plugins...'') s)))) of
                   Inl error \<Rightarrow> []
                 | Inr hls \<Rightarrow> hls)
       \<and> fst ` set (fst (fetchFromAllPlugins cfg now s)) = p_id ` set (getEnabledPlugins cfg s)"
proof -
  let ?s0 = "emit ConsoleLog (''Fetching from '' @ showNat (length (getEnabledPlugins cfg s))
               @ '' enabled plugins...'') s"
  let ?r1 = "fst (fetchLoop cfg now before [] ?s0)"
  let ?s1 = "snd (fetchLoop cfg now before [] ?s0)"
  have "map_of (fst (fetchLoop cfg now (before @ plugin # after) [] ?s0)) (p_id plugin)
          = map_of (fst (fetchLoop cfg now (plugin # after) ?r1 ?s1)) (p_id plugin)"
    by (simp only: fetchLoop_append)
  also have "\<dots> = Some (case fst (fetchFromPlugin cfg now (p_id plugin) ?s1) of
                          Inl error \<Rightarrow> [] | Inr hls \<Rightarrow> hls)"
    unfolding fetchLoop_Cons Let_def
    by (simp only: fetchLoop_other [OF assms(2)] map_of_mapSet) simp
  finally have 1: "map_of (fst (fetchFromAllPlugins cfg now s)) (p_id plugin)
          = Some (case fst (fetchFromPlugin cfg now (p_id plugin) ?s1) of
                          Inl error \<Rightarrow> [] | Inr hls \<Rightarrow> hls)"
    by (simp only: fst_fetchFromAllPlugins assms(1))
  have 2: "fst ` set (fst (fetchFromAllPlugins cfg now s)) = p_id ` set (getEnabledPlugins cfg s)"
    by (simp only: fst_fetchFromAllPlugins fetchLoop_keys) simp
  from 1 2 show ?thesis by blast
qed


lemmas fetch_defs = fetchFromAllPlugins_def getEnabledPlugins_def fetchFromPlugin_def
  fetchBegin_def fetchResume_def fetchFailed_def getPluginConfig_def getPluginConfigs_def
  yamlPluginToDbPlugin_def insertHeadline_def enforceRetentionPolicy_def updatePluginRun_def
  emit_def orDefault_def Let_def

theorem fetch_all_entry_per_plugin_witness:
  "getEnabledPlugins pairConfig pairManager =
     [stubPlugin ''alpha'' ''Topix'' (Inl (JsError ''network down''))]
     @ stubPlugin ''beta'' ''Topix'' (Inr [exampleHeadline ''b2'' ''beta'' 7000000]) # []
   \<and> map_of (fst (fetchFromAllPlugins pairConfig 7200000 pairManager)) ''beta''
       = Some [exampleHeadline ''b2'' ''beta'' 7000000]
   \<and> fst ` set (fst (fetchFromAllPlugins pairConfig 7200000 pairManager)) = {''alpha'', ''beta''}"
proof -
  have e: "getEnabledPlugins pairConfig pairManager =
     [stubPlugin ''alpha'' ''Topix'' (Inl (JsError ''network down''))]
     @ stubPlugin ''beta'' ''Topix'' (Inr [exampleHeadline ''b2'' ''beta'' 7000000]) # []"
    by (simp add: getEnabledPlugins_def pairConfig_def pairManager_def getPluginConfigs_def
          yamlPluginToDbPlugin_def stubPlugin_def Let_def)
  have n: "p_id (stubPlugin ''beta'' ''Topix'' (Inr [exampleHeadline ''b2'' ''beta'' 7000000]))
             \<notin> p_id ` set []"
    by simp
  from fetch_all_entry_per_plugin [OF e n, of 7200000] e
  show ?thesis
    by (simp add: fetch_defs pairConfig_def pairManager_def stubPlugin_def alphaDatabase_def
          exampleHeadline_def)
qed

text \<open>
  Claim C8 as stated fails: the returned map does not tell a failed fetch from a successful
  fetch of no headlines. A plugin whose fetch throws and one whose fetch returns the empty
  list lead to the same result.
\<close>

theorem failure_recorded_as_empty_counterexample:
  "fst (fetchFromPlugin (alphaConfig True) 7200000 ''alpha''
          (stubManager (Inl (JsError ''network down'')))) = Inl (JsError ''network down'')
   \<and> fst (fetchFromPlugin (alphaConfig True) 7200000 ''alpha'' (stubManager (Inr []))) = Inr []
   \<and> fst (fetchFromAllPlugins (alphaConfig True) 7200000
            (stubManager (Inl (JsError ''network down'')))) = [(''alpha'', [])]
   \<and> fst (fetchFromAllPlugins (alphaConfig True) 7200000 (stubManager (Inr [])))
       = [(''alpha'', [])]"
  by (simp add: fetch_defs alphaConfig_def stubManager_def stubPlugin_def alphaDatabase_def
        exampleHeadline_def)

section \<open>Properties of the event loop\<close>

lemma fetchBegin_emit: "fetchBegin cfg pid (emit lv msg s) = fetchBegin cfg pid s"
  by (simp add: fetchBegin_def emit_def split: option.splits)

lemma fetchBegin_loaded:
  "fetchBegin cfg pid s = Inr (plugin, ctx) \<Longrightarrow> map_of (plugins s) pid = Some plugin"
  by (auto simp: fetchBegin_def split: option.splits if_splits)

text \<open>
  Claim C1, amended. The code keeps no record of running fetches and tests none. Whenever
  \<open>fetchFromPlugin\<close> would get past its checks for plugin \<open>pid\<close> (the plugin is loaded and
  enabled), a timer tick for \<open>pid\<close> and a manual fetch for \<open>pid\<close> each add a new suspended
  fetch to those already in flight, whatever these are; the tick logs the start of the
  scheduled fetch and nothing about skipping, and the manual fetch logs nothing.
\<close>

theorem trigger_starts_fetch_even_when_in_flight:
  assumes "fetchBegin cfg pid (pluginManager (sched p)) = Inr (plugin, ctx)"
  shows "(\<forall>task. map_of (tasks (sched p)) pid = Some task \<and> started task \<longrightarrow>
            inflight (step cfg now (TimerFires pid) p) =
              inflight p @ [\<lparr>pend_pluginId = pid, pend_plugin = plugin,
                              pend_outcome = p_fetchHeadlines plugin ctx,
                              pend_scheduled = True\<rparr>]
            \<and> pm_console (pluginManager (sched (step cfg now (TimerFires pid) p))) =
                pm_console (pluginManager (sched p))
                  @ [(ConsoleLog, ''Running scheduled fetch: '' @ p_name plugin)])
       \<and> inflight (step cfg now (ManualFetch pid) p) =
           inflight p @ [\<lparr>pend_pluginId = pid, pend_plugin = plugin,
                           pend_outcome = p_fetchHeadlines plugin ctx,
                           pend_scheduled = False\<rparr>]
       \<and> sched (step cfg now (ManualFetch pid) p) = sched p"
  using assms fetchBegin_loaded [OF assms]
  by (simp add: step_def executePluginBegin_def manualFetchBegin_def say_def fetchBegin_emit
        console_emit Let_def)

lemma alpha_begin:
  "fetchBegin (alphaConfig True) ''alpha'' (pluginManager (sched p)) =
     Inr (alphaPlugin (Count 3),
          \<lparr>ctx_pluginId = ''alpha'', ctx_config = JObj [], ctx_lastRun = None,
           ctx_db = db (pluginManager (sched p))\<rparr>)"
  if "plugins (pluginManager (sched p)) = [(''alpha'', alphaPlugin (Count 3))]"
  using that
  by (simp add: fetchBegin_def alphaConfig_def getPluginConfig_def getPluginConfigs_def
        yamlPluginToDbPlugin_def)

theorem trigger_starts_fetch_witness:
  "map pend_pluginId (inflight (step (alphaConfig True) 7200000 (TimerFires ''alpha'') alphaProcess))
     = [''alpha'']
   \<and> map pend_pluginId
        (inflight (step (alphaConfig True) 7200001 (ManualFetch ''alpha'')
                     (step (alphaConfig True) 7200000 (TimerFires ''alpha'') alphaProcess)))
       = [''alpha'', ''alpha'']"
proof -
  let ?p1 = "step (alphaConfig True) 7200000 (TimerFires ''alpha'') alphaProcess"
  have t: "map_of (tasks (sched alphaProcess)) ''alpha''
             = Some \<lparr>cronExpression = ''*/5 * * * *'', started = True\<rparr>"
    by (simp add: alphaProcess_def alphaScheduler_def)
  have pl0: "plugins (pluginManager (sched alphaProcess)) = [(''alpha'', alphaPlugin (Count 3))]"
    by (simp add: alphaProcess_def alphaScheduler_def alphaManager_def)
  from trigger_starts_fetch_even_when_in_flight [OF alpha_begin [OF pl0], of 7200000] t
  have 1: "inflight ?p1 =
             inflight alphaProcess @
               [\<lparr>pend_pluginId = ''alpha'', pend_plugin = alphaPlugin (Count 3),
                 pend_outcome = p_fetchHeadlines (alphaPlugin (Count 3))
                    \<lparr>ctx_pluginId = ''alpha'', ctx_config = JObj [], ctx_lastRun = None,
                     ctx_db = db (pluginManager (sched alphaProcess))\<rparr>,
                 pend_scheduled = True\<rparr>]"
    by simp
  have pl1: "plugins (pluginManager (sched ?p1)) = [(''alpha'', alphaPlugin (Count 3))]"
    using alpha_begin [OF pl0] pl0 t
    by (simp add: step_def executePluginBegin_def say_def fetchBegin_emit plugins_emit Let_def)
  from trigger_starts_fetch_even_when_in_flight [OF alpha_begin [OF pl1], of 7200001]
  have 2: "inflight (step (alphaConfig True) 7200001 (ManualFetch ''alpha'') ?p1) =
             inflight ?p1 @
               [\<lparr>pend_pluginId = ''alpha'', pend_plugin = alphaPlugin (Count 3),
                 pend_outcome = p_fetchHeadlines (alphaPlugin (Count 3))
                    \<lparr>ctx_pluginId = ''alpha'', ctx_config = JObj [], ctx_lastRun = None,
                     ctx_db = db (pluginManager (sched ?p1))\<rparr>,
                 pend_scheduled = False\<rparr>]"
    by simp
  show ?thesis
    unfolding 2 1 by (simp add: alphaProcess_def)
qed

lemmas process_defs = run.simps step_def executePluginBegin_def manualFetchBegin_def say_def
  emit_def fetchBegin_def getPluginConfig_def getPluginConfigs_def yamlPluginToDbPlugin_def
  alphaProcess_def alphaScheduler_def alphaManager_def alphaPlugin_def alphaConfig_def Let_def

text \<open>
  Claim C1 as stated fails: two ticks of the timer of \<open>alpha\<close> with no completion between
  them leave two fetches of \<open>alpha\<close> in flight, and the console shows two started fetches and
  no skipped one.
\<close>

theorem two_fetches_in_flight_counterexample:
  "map pend_pluginId
     (inflight (run (alphaConfig True)
                  [(7200000, TimerFires ''alpha''), (7200001, TimerFires ''alpha'')]
                  alphaProcess)) = [''alpha'', ''alpha'']
   \<and> pm_console (pluginManager (sched (run (alphaConfig True)
                  [(7200000, TimerFires ''alpha''), (7200001, TimerFires ''alpha'')]
                  alphaProcess)))
       = [(ConsoleLog, ''Running scheduled fetch: Alpha''),
          (ConsoleLog, ''Running scheduled fetch: Alpha'')]"
  by (simp add: process_defs)

end
